theory Spec2Isabelle
  imports Main
begin

section \<open>The Pyodide bridge (static/js/pyodide-bridge.js)\<close>

text \<open>
  The bridge keeps three module-level variables (\<open>pyodide\<close>, \<open>pythonModulesLoaded\<close>,
  \<open>initializationPromise\<close>), boots an embedded Python runtime, installs the validation
  package into it and exposes four asynchronous wrappers. Everything outside the file (the
  runtime loader, micropip, the network, the runtime's file system, the Python delegates, the
  JSON codecs of both languages) is a field of an environment record, so every theorem holds
  for every behaviour of these collaborators.

  Each \<open>async\<close> function is modelled run to completion: it takes the module state and
  returns its settled outcome (\<open>Inl\<close> a thrown error or rejection, \<open>Inr\<close> the value)
  with the new state. Interleavings of two pending calls at their \<open>await\<close> points are
  outside this model. Strings are byte lists.
\<close>

subsection \<open>Values, errors and events\<close>

type_synonym handle = nat

datatype js_error = Error (message: string)

datatype 'n js_value =
    JSNull
  | JSBool bool
  | JSNumber 'n
  | JSString string
  | JSArray "'n js_value list"
  | JSObject "(string \<times> 'n js_value) list"

text \<open>What \<open>detect_spec_version_from_parsed_data\<close> hands back: \<open>None\<close> or a \<open>str\<close>.\<close>

datatype py_version = PyNone | PyStr string

text \<open>
  The outcome of \<open>await fetch(url)\<close>: a rejection, or a response with its \<open>ok\<close> flag and
  the outcome of \<open>await response.text()\<close>.
\<close>

datatype fetch_outcome = FetchRejected js_error | Response bool "js_error + string"

text \<open>The Python scripts the file hands to \<open>runPython\<close> and \<open>runPythonAsync\<close>, one per template.\<close>

datatype script =
    InstallSupport
  | InstallWheel string
  | InstallPyPI
  | MakeDataDir
  | PatchLoader
  | AssignLogData string
  | CallParse
  | CallDetect
  | CallValidate
  | ListVersions

datatype level = Log | Warn | ErrorLevel

text \<open>
  The calls the bridge makes on its collaborators, recorded in order: the state carries this
  list so that theorems can speak of which calls were made, how often and in which order.
\<close>

datatype event =
    LoadPyodide
  | RunPython script
  | RunPythonAsync script
  | Fetch string
  | WriteFile string string
  | GlobalsSet string string
  | Console level string "js_error option"

subsection \<open>The environment and the module state\<close>

record ('n, 'p) env =
  window_DMV_PACKAGE_URL :: "string option"
  loadPyodide :: "js_error + handle"
  micropip_install :: "string \<Rightarrow> js_error option"
  pyodide_http_patch_all :: "js_error option"
  make_data_dir :: "js_error option"
  fetch :: "string \<Rightarrow> fetch_outcome"
  FS_writeFile :: "string \<Rightarrow> string \<Rightarrow> js_error option"
  patch_loader :: "js_error option"
  python_outside_fragment :: "string \<Rightarrow> js_error + string"
  import_module :: "string \<Rightarrow> js_error option"
  json_loads :: "string \<Rightarrow> js_error + 'p"
  json_dumps :: "'p \<Rightarrow> js_error + string"
  parse_datamodel_logs :: "string \<Rightarrow> js_error + 'p"
  detect_spec_version_from_parsed_data :: "'p \<Rightarrow> js_error + py_version"
  validate_device_conformance :: "'p \<Rightarrow> string \<Rightarrow> js_error + 'p"
  SUPPORTED_SPEC_VERSIONS :: "js_error + 'p"
  JSON_parse :: "string \<Rightarrow> js_error + 'n js_value"
  JSON_stringify :: "'n js_value \<Rightarrow> js_error + string"

text \<open>
  \<open>initializationPromise\<close> holds the settled outcome of the memoized promise (a pending
  promise is never seen between two run-to-completion calls). \<open>fs\<close> is the runtime's file
  system, \<open>py_globals\<close> the runtime's global namespace.
\<close>

record state =
  pyodide :: "handle option"
  pythonModulesLoaded :: bool
  initializationPromise :: "(js_error + handle) option"
  fs :: "string \<rightharpoonup> string"
  py_globals :: "string \<rightharpoonup> string"
  trace :: "event list"

definition initial_state :: state where
  "initial_state =
     \<lparr>pyodide = None, pythonModulesLoaded = False, initializationPromise = None,
      fs = Map.empty, py_globals = Map.empty, trace = []\<rparr>"

definition emit :: "event \<Rightarrow> state \<Rightarrow> state" where
  "emit e s = s\<lparr>trace := trace s @ [e]\<rparr>"

text \<open>The events a call added to the trace.\<close>

definition new_events :: "state \<Rightarrow> state \<Rightarrow> event list" where
  "new_events s s' = drop (length (trace s)) (trace s')"

subsection \<open>loadBundledModules (lines 58--140)\<close>

definition validationDataVersions :: "string list" where
  "validationDataVersions = [''1.2'', ''1.3'', ''1.4'', ''1.4.1'', ''1.4.2'', ''1.5'', ''master'']"

definition fetch_url :: "string \<Rightarrow> string" where
  "fetch_url version = ''data/validation_data_'' @ version @ ''.json''"

definition fs_path :: "string \<Rightarrow> string" where
  "fs_path version = ''/data/validation_data_'' @ version @ ''.json''"

definition warn_version :: "string \<Rightarrow> js_error \<Rightarrow> state \<Rightarrow> state" where
  "warn_version version e s =
     emit (Console Warn (''Could not load validation data for version '' @ version @ '':'') (Some e)) s"

text \<open>One turn of the loop of lines 94--104: everything thrown inside is caught and logged.\<close>

definition load_version :: "('n, 'p) env \<Rightarrow> string \<Rightarrow> state \<Rightarrow> state" where
  "load_version env version s =
     (let s1 = emit (Fetch (fetch_url version)) s in
      case fetch env (fetch_url version) of
        FetchRejected e \<Rightarrow> warn_version version e s1
      | Response ok body \<Rightarrow>
          if ok then
            (case body of
               Inl e \<Rightarrow> warn_version version e s1
             | Inr jsonData \<Rightarrow>
                 (let s2 = emit (WriteFile (fs_path version) jsonData) s1 in
                  case FS_writeFile env (fs_path version) jsonData of
                    Some e \<Rightarrow> warn_version version e s2
                  | None \<Rightarrow> s2\<lparr>fs := (fs s2)(fs_path version \<mapsto> jsonData)\<rparr>))
          else s1)"

fun load_validation_data :: "('n, 'p) env \<Rightarrow> string list \<Rightarrow> state \<Rightarrow> state" where
  "load_validation_data env [] s = s"
| "load_validation_data env (version # versions) s =
     load_validation_data env versions (load_version env version s)"

definition package_not_available :: js_error where
  "package_not_available =
     Error ''Python package not available. Please configure DMV_PACKAGE_URL or ensure package is installable.''"

text \<open>The body of the outer \<open>try\<close> of \<open>loadBundledModules\<close> (lines 61--135).\<close>

definition loadBundledModules_try :: "('n, 'p) env \<Rightarrow> state \<Rightarrow> (js_error + unit) \<times> state" where
  "loadBundledModules_try env s =
     (let s1 = emit (RunPythonAsync InstallPyPI) s in
      case micropip_install env ''esp-matter-dm-validator'' of
        Some pipError \<Rightarrow>
          (Inl package_not_available,
           emit (Console Warn ''Could not install from PyPI, trying to load Python files directly:''
                   (Some pipError)) s1)
      | None \<Rightarrow>
          (let s2 = emit (Console Log ''Python modules installed from PyPI'' None)
                      (s1\<lparr>pythonModulesLoaded := True\<rparr>);
               s3 = emit (RunPython MakeDataDir) s2 in
           case make_data_dir env of
             Some e \<Rightarrow> (Inl e, s3)
           | None \<Rightarrow>
               (let s4 = load_validation_data env validationDataVersions s3;
                    s5 = emit (RunPython PatchLoader) s4 in
                case patch_loader env of
                  Some e \<Rightarrow> (Inl e, s5)
                | None \<Rightarrow>
                    (Inr (),
                     emit (Console Log ''Bundled modules and data loaded'' None)
                       (s5\<lparr>pythonModulesLoaded := True\<rparr>)))))"

text \<open>The outer \<open>catch\<close> (lines 136--139) logs the error and throws it again.\<close>

definition loadBundledModules :: "('n, 'p) env \<Rightarrow> state \<Rightarrow> (js_error + unit) \<times> state" where
  "loadBundledModules env s =
     (case loadBundledModules_try env s of
        (Inl error, s') \<Rightarrow>
          (Inl error, emit (Console ErrorLevel ''Error loading bundled modules:'' (Some error)) s')
      | (Inr u, s') \<Rightarrow> (Inr u, s'))"

subsection \<open>initializePyodide (lines 10--55)\<close>

text \<open>\<open>window.DMV_PACKAGE_URL || null\<close>: an absent or empty URL counts as none.\<close>

definition packageUrl :: "('n, 'p) env \<Rightarrow> string option" where
  "packageUrl env =
     (case window_DMV_PACKAGE_URL env of
        None \<Rightarrow> None
      | Some u \<Rightarrow> if u = [] then None else Some u)"

text \<open>Lines 23--28: the support script installs pyodide-http and applies its patch.\<close>

definition install_support :: "('n, 'p) env \<Rightarrow> js_error option" where
  "install_support env =
     (case micropip_install env ''pyodide-http'' of
        Some e \<Rightarrow> Some e
      | None \<Rightarrow> pyodide_http_patch_all env)"

text \<open>Lines 35--52: the wheel of the configured URL first, the bundled route otherwise.\<close>

definition load_package :: "('n, 'p) env \<Rightarrow> state \<Rightarrow> (js_error + unit) \<times> state" where
  "load_package env s =
     (case packageUrl env of
        Some url \<Rightarrow>
          (let s1 = emit (RunPythonAsync (InstallWheel url)) s in
           case micropip_install env url of
             None \<Rightarrow>
               (Inr (),
                emit (Console Log ''Python modules loaded from wheel'' None)
                  (s1\<lparr>pythonModulesLoaded := True\<rparr>))
           | Some error \<Rightarrow>
               loadBundledModules env
                 (emit (Console Warn ''Failed to load from wheel, trying bundled modules:''
                          (Some error)) s1))
      | None \<Rightarrow> loadBundledModules env s)"

definition initializePyodide :: "('n, 'p) env \<Rightarrow> state \<Rightarrow> (js_error + handle) \<times> state" where
  "initializePyodide env s =
     (case pyodide s of
        Some h \<Rightarrow> (Inr h, s)
      | None \<Rightarrow>
          (let s1 = emit LoadPyodide (emit (Console Log ''Loading Pyodide...'' None) s) in
           case loadPyodide env of
             Inl e \<Rightarrow> (Inl e, s1)
           | Inr h \<Rightarrow>
               (let s2 = emit (Console Log ''Pyodide loaded, installing packages...'' None)
                           (s1\<lparr>pyodide := Some h\<rparr>);
                    s3 = emit (RunPythonAsync InstallSupport) s2 in
                case install_support env of
                  Some e \<Rightarrow> (Inl e, s3)
                | None \<Rightarrow>
                    (case load_package env (emit (Console Log ''Loading dmv_tool package...'' None) s3) of
                       (Inl e, s4) \<Rightarrow> (Inl e, s4)
                     | (Inr u, s4) \<Rightarrow> (Inr h, s4)))))"

subsection \<open>getPyodide and the call at module load (lines 265--298)\<close>

definition getPyodide :: "('n, 'p) env \<Rightarrow> state \<Rightarrow> (js_error + handle) \<times> state" where
  "getPyodide env s =
     (case initializationPromise s of
        None \<Rightarrow>
          (case initializePyodide env s of
             (r, s') \<Rightarrow> (r, s'\<lparr>initializationPromise := Some r\<rparr>))
      | Some r \<Rightarrow> (r, s))"

text \<open>
  Importing the module calls \<open>getPyodide()\<close> once and logs the outcome (the changes to the
  host page are left out).
\<close>

definition module_load :: "('n, 'p) env \<Rightarrow> state" where
  "module_load env =
     (case getPyodide env initial_state of
        (Inr h, s) \<Rightarrow> emit (Console Log ''Pyodide bridge ready'' None) s
      | (Inl error, s) \<Rightarrow> emit (Console ErrorLevel ''Failed to initialize Pyodide:'' (Some error)) s)"

text \<open>
  The lifecycle as the specification names it, read off the memoized promise.
\<close>

datatype readiness = Uninitialized | Ready handle | Failed js_error

definition readinessState :: "state \<Rightarrow> readiness" where
  "readinessState s =
     (case initializationPromise s of
        None \<Rightarrow> Uninitialized
      | Some (Inr h) \<Rightarrow> Ready h
      | Some (Inl e) \<Rightarrow> Failed e)"

subsection \<open>ensurePyodideReady (lines 255--262)\<close>

definition modules_not_loaded :: js_error where
  "modules_not_loaded = Error ''Python modules not loaded''"

definition ensurePyodideReady :: "('n, 'p) env \<Rightarrow> state \<Rightarrow> (js_error + unit) \<times> state" where
  "ensurePyodideReady env s =
     (case (case pyodide s of
              None \<Rightarrow> initializePyodide env s
            | Some h \<Rightarrow> (Inr h, s)) of
        (Inl e, s1) \<Rightarrow> (Inl e, s1)
      | (Inr h, s1) \<Rightarrow>
          if \<not> pythonModulesLoaded s1 then (Inl modules_not_loaded, s1) else (Inr (), s1))"

subsection \<open>Escaping the log text (lines 152--155)\<close>

abbreviation backslash :: char where "backslash \<equiv> CHR 0x5C"
abbreviation backtick :: char where "backtick \<equiv> CHR 0x60"
abbreviation dollar :: char where "dollar \<equiv> CHR 0x24"
abbreviation lbrace :: char where "lbrace \<equiv> CHR 0x7B"
abbreviation dquote :: char where "dquote \<equiv> CHR 0x22"
abbreviation squote :: char where "squote \<equiv> CHR 0x27"

text \<open>The three global replacements, each a left-to-right scan.\<close>

fun replace_backslash :: "string \<Rightarrow> string" where
  "replace_backslash [] = []"
| "replace_backslash (c # cs) =
     (if c = backslash then [backslash, backslash] else [c]) @ replace_backslash cs"

fun replace_backtick :: "string \<Rightarrow> string" where
  "replace_backtick [] = []"
| "replace_backtick (c # cs) =
     (if c = backtick then [backslash, backtick] else [c]) @ replace_backtick cs"

fun replace_dollar_brace :: "string \<Rightarrow> string" where
  "replace_dollar_brace (c # d # cs) =
     (if c = dollar \<and> d = lbrace then [backslash, dollar, lbrace] @ replace_dollar_brace cs
      else c # replace_dollar_brace (d # cs))"
| "replace_dollar_brace cs = cs"

definition escapeLogData :: "string \<Rightarrow> string" where
  "escapeLogData logData = replace_dollar_brace (replace_backtick (replace_backslash logData))"

subsection \<open>The Python scripts of the wrappers\<close>

text \<open>
  The first script of \<open>parseDatamodelLogs\<close> is the Python statement
  \<open>log_data_str = """..."""\<close> with the escaped text spliced between the quotes (a value
  interpolated into a JavaScript template literal is copied as it is). What the statement
  binds is what Python reads from a triple-quoted literal: a backslash and the character
  after it form an escape sequence; \<open>\\\<close> is one backslash, \<open>\'\<close>, \<open>\"\<close>, \<open>\a\<close>,
  \<open>\b\<close>, \<open>\f\<close>, \<open>\n\<close>, \<open>\r\<close>, \<open>\t\<close>, \<open>\v\<close> are one character each, and an escape
  sequence Python does not know stays in the string, backslash included. \<open>py_escape\<close> gives
  the characters an escape sequence stands for, and \<open>None\<close> for the numeric and named
  sequences and for a backslash before a line break, which are not modelled.

  The statement stands in an indented template (lines 158--161), and Pyodide removes the
  common indentation of the whole script, the spliced text included, before it compiles it.
  A text of one line is not touched by this. A text with a line feed is: a following line
  that is not indented leaves the statements indented (Python raises IndentationError before
  the delegate is reached), and following lines that are indented lose their indentation. So
  a line feed in the text is outside the modelled fragment as well.
\<close>

definition py_escape :: "char \<Rightarrow> string option" where
  "py_escape d =
     (if d = backslash then Some [backslash]
      else if d = squote then Some [squote]
      else if d = dquote then Some [dquote]
      else if d = CHR ''a'' then Some [CHR 0x07]
      else if d = CHR ''b'' then Some [CHR 0x08]
      else if d = CHR ''f'' then Some [CHR 0x0C]
      else if d = CHR ''n'' then Some [CHR 0x0A]
      else if d = CHR ''r'' then Some [CHR 0x0D]
      else if d = CHR ''t'' then Some [CHR 0x09]
      else if d = CHR ''v'' then Some [CHR 0x0B]
      else if d \<in> set ''xuUN01234567'' \<or> d = CHR 0x0A \<or> d = CHR 0x0D \<or> d = CHR 0x00 then None
      else Some [backslash, d])"

text \<open>
  The value of the literal whose body is the given text, or \<open>None\<close> when the text leaves the
  modelled fragment: three quotes in a row (counting the closing ones) end the literal before
  the end of the text, a lone backslash at the end escapes the closing quote, and line feeds,
  carriage returns, NUL and the numeric and named escapes are not modelled.
\<close>

fun py_triple_quoted :: "string \<Rightarrow> string option" where
  "py_triple_quoted [] = Some []"
| "py_triple_quoted [c] =
     (if c = backslash \<or> c = dquote \<or> c = CHR 0x0A \<or> c = CHR 0x0D \<or> c = CHR 0x00 then None
      else Some [c])"
| "py_triple_quoted (c # d # cs) =
     (if c = backslash then
        (case py_escape d of
           None \<Rightarrow> None
         | Some out \<Rightarrow> map_option (\<lambda>r. out @ r) (py_triple_quoted cs))
      else if c = dquote \<and> d = dquote \<and> (case cs of [] \<Rightarrow> True | e # es \<Rightarrow> e = dquote) then None
      else if c = CHR 0x0A \<or> c = CHR 0x0D \<or> c = CHR 0x00 then None
      else map_option (\<lambda>r. c # r) (py_triple_quoted (d # cs)))"

text \<open>
  Running the assignment script: the value bound to \<open>log_data_str\<close>, or the exception. Outside
  the modelled fragment (a text of several lines among them) the outcome is the
  environment's, which may be an IndentationError or a SyntaxError.
\<close>

definition assign_log_data :: "('n, 'p) env \<Rightarrow> string \<Rightarrow> js_error + string" where
  "assign_log_data env escapedLogData =
     (case py_triple_quoted escapedLogData of
        Some v \<Rightarrow> Inr v
      | None \<Rightarrow> python_outside_fragment env escapedLogData)"

definition name_error :: "string \<Rightarrow> js_error" where
  "name_error name = Error (''NameError: name '' @ name @ '' is not defined'')"

text \<open>Lines 164--168.\<close>

definition parse_script :: "('n, 'p) env \<Rightarrow> (string \<rightharpoonup> string) \<Rightarrow> js_error + string" where
  "parse_script env g =
     (case import_module env ''parsers.wildcard_logs'' of
        Some e \<Rightarrow> Inl e
      | None \<Rightarrow>
          (case g ''log_data_str'' of
             None \<Rightarrow> Inl (name_error ''log_data_str'')
           | Some log_data_str \<Rightarrow>
               (case parse_datamodel_logs env log_data_str of
                  Inl e \<Rightarrow> Inl e
                | Inr parsed \<Rightarrow> json_dumps env parsed)))"

text \<open>Lines 189--194; the last line is \<open>version if version else "master"\<close>.\<close>

definition detect_script :: "('n, 'p) env \<Rightarrow> (string \<rightharpoonup> string) \<Rightarrow> js_error + string" where
  "detect_script env g =
     (case import_module env ''validators.conformance_checker'' of
        Some e \<Rightarrow> Inl e
      | None \<Rightarrow>
          (case g ''parsed_data_json'' of
             None \<Rightarrow> Inl (name_error ''parsed_data_json'')
           | Some parsed_data_json \<Rightarrow>
               (case json_loads env parsed_data_json of
                  Inl e \<Rightarrow> Inl e
                | Inr parsed_data \<Rightarrow>
                    (case detect_spec_version_from_parsed_data env parsed_data of
                       Inl e \<Rightarrow> Inl e
                     | Inr PyNone \<Rightarrow> Inr ''master''
                     | Inr (PyStr version) \<Rightarrow>
                         Inr (if version \<noteq> [] then version else ''master'')))))"

text \<open>Lines 216--223.\<close>

definition validate_script :: "('n, 'p) env \<Rightarrow> (string \<rightharpoonup> string) \<Rightarrow> js_error + string" where
  "validate_script env g =
     (case import_module env ''validators.conformance_checker'' of
        Some e \<Rightarrow> Inl e
      | None \<Rightarrow>
          (case g ''parsed_data_json'' of
             None \<Rightarrow> Inl (name_error ''parsed_data_json'')
           | Some parsed_data_json \<Rightarrow>
               (case json_loads env parsed_data_json of
                  Inl e \<Rightarrow> Inl e
                | Inr parsed_data \<Rightarrow>
                    (case g ''spec_version_str'' of
                       None \<Rightarrow> Inl (name_error ''spec_version_str'')
                     | Some spec_version \<Rightarrow>
                         (case validate_device_conformance env parsed_data spec_version of
                            Inl e \<Rightarrow> Inl e
                          | Inr validation_results \<Rightarrow> json_dumps env validation_results)))))"

text \<open>Lines 241--244.\<close>

definition versions_script :: "('n, 'p) env \<Rightarrow> js_error + string" where
  "versions_script env =
     (case import_module env ''configs.constants'' of
        Some e \<Rightarrow> Inl e
      | None \<Rightarrow>
          (case SUPPORTED_SPEC_VERSIONS env of
             Inl e \<Rightarrow> Inl e
           | Inr versions \<Rightarrow> json_dumps env versions))"

definition globals_set :: "string \<Rightarrow> string \<Rightarrow> state \<Rightarrow> state" where
  "globals_set name v s = emit (GlobalsSet name v) (s\<lparr>py_globals := (py_globals s)(name \<mapsto> v)\<rparr>)"

subsection \<open>parseDatamodelLogs (lines 147--176)\<close>

definition parseDatamodelLogs_try ::
  "('n, 'p) env \<Rightarrow> string \<Rightarrow> state \<Rightarrow> (js_error + 'n js_value) \<times> state" where
  "parseDatamodelLogs_try env logData s =
     (let escapedLogData = escapeLogData logData;
          s1 = emit (RunPython (AssignLogData escapedLogData)) s in
      case assign_log_data env escapedLogData of
        Inl e \<Rightarrow> (Inl e, s1)
      | Inr v \<Rightarrow>
          (let s2 = s1\<lparr>py_globals := (py_globals s1)(''log_data_str'' \<mapsto> v)\<rparr>;
               s3 = emit (RunPythonAsync CallParse) s2 in
           case parse_script env (py_globals s2) of
             Inl e \<Rightarrow> (Inl e, s3)
           | Inr result \<Rightarrow>
               (case JSON_parse env result of
                  Inl e \<Rightarrow> (Inl e, s3)
                | Inr parsed \<Rightarrow> (Inr parsed, s3))))"

definition parseDatamodelLogs ::
  "('n, 'p) env \<Rightarrow> string \<Rightarrow> state \<Rightarrow> (js_error + 'n js_value) \<times> state" where
  "parseDatamodelLogs env logData s =
     (case ensurePyodideReady env s of
        (Inl e, s1) \<Rightarrow> (Inl e, s1)
      | (Inr u, s1) \<Rightarrow>
          (case parseDatamodelLogs_try env logData s1 of
             (Inl error, s2) \<Rightarrow>
               (Inl (Error (''Failed to parse logs: '' @ message error)),
                emit (Console ErrorLevel ''Error parsing logs:'' (Some error)) s2)
           | (Inr parsed, s2) \<Rightarrow> (Inr parsed, s2)))"

subsection \<open>detectSpecVersion (lines 181--202)\<close>

definition detectSpecVersion_try ::
  "('n, 'p) env \<Rightarrow> 'n js_value \<Rightarrow> state \<Rightarrow> (js_error + 'n js_value) \<times> state" where
  "detectSpecVersion_try env parsedData s =
     (case JSON_stringify env parsedData of
        Inl e \<Rightarrow> (Inl e, s)
      | Inr text \<Rightarrow>
          (let s1 = globals_set ''parsed_data_json'' text s;
               s2 = emit (RunPythonAsync CallDetect) s1 in
           case detect_script env (py_globals s1) of
             Inl e \<Rightarrow> (Inl e, s2)
           | Inr result \<Rightarrow> (Inr (JSString result), s2)))"

definition detectSpecVersion ::
  "('n, 'p) env \<Rightarrow> 'n js_value \<Rightarrow> state \<Rightarrow> (js_error + 'n js_value) \<times> state" where
  "detectSpecVersion env parsedData s =
     (case ensurePyodideReady env s of
        (Inl e, s1) \<Rightarrow> (Inl e, s1)
      | (Inr u, s1) \<Rightarrow>
          (case detectSpecVersion_try env parsedData s1 of
             (Inl error, s2) \<Rightarrow>
               (Inr JSNull, emit (Console ErrorLevel ''Error detecting version:'' (Some error)) s2)
           | (Inr result, s2) \<Rightarrow> (Inr result, s2)))"

subsection \<open>validateDeviceConformance (lines 207--231)\<close>

definition validateDeviceConformance_try ::
  "('n, 'p) env \<Rightarrow> 'n js_value \<Rightarrow> string \<Rightarrow> state \<Rightarrow> (js_error + 'n js_value) \<times> state" where
  "validateDeviceConformance_try env parsedData specVersion s =
     (case JSON_stringify env parsedData of
        Inl e \<Rightarrow> (Inl e, s)
      | Inr text \<Rightarrow>
          (let s1 = globals_set ''spec_version_str'' specVersion
                      (globals_set ''parsed_data_json'' text s);
               s2 = emit (RunPythonAsync CallValidate) s1 in
           case validate_script env (py_globals s1) of
             Inl e \<Rightarrow> (Inl e, s2)
           | Inr result \<Rightarrow>
               (case JSON_parse env result of
                  Inl e \<Rightarrow> (Inl e, s2)
                | Inr validation_results \<Rightarrow> (Inr validation_results, s2))))"

definition validateDeviceConformance ::
  "('n, 'p) env \<Rightarrow> 'n js_value \<Rightarrow> string \<Rightarrow> state \<Rightarrow> (js_error + 'n js_value) \<times> state" where
  "validateDeviceConformance env parsedData specVersion s =
     (case ensurePyodideReady env s of
        (Inl e, s1) \<Rightarrow> (Inl e, s1)
      | (Inr u, s1) \<Rightarrow>
          (case validateDeviceConformance_try env parsedData specVersion s1 of
             (Inl error, s2) \<Rightarrow>
               (Inl (Error (''Validation failed: '' @ message error)),
                emit (Console ErrorLevel ''Error validating conformance:'' (Some error)) s2)
           | (Inr validation_results, s2) \<Rightarrow> (Inr validation_results, s2)))"

subsection \<open>getSupportedVersions (lines 236--252)\<close>

definition fallback_versions :: "'n js_value" where
  "fallback_versions =
     JSArray [JSString ''1.2'', JSString ''1.3'', JSString ''1.4'', JSString ''1.4.1'',
              JSString ''1.4.2'', JSString ''1.5'', JSString ''master'']"

definition getSupportedVersions_try ::
  "('n, 'p) env \<Rightarrow> state \<Rightarrow> (js_error + 'n js_value) \<times> state" where
  "getSupportedVersions_try env s =
     (let s1 = emit (RunPythonAsync ListVersions) s in
      case versions_script env of
        Inl e \<Rightarrow> (Inl e, s1)
      | Inr result \<Rightarrow>
          (case JSON_parse env result of
             Inl e \<Rightarrow> (Inl e, s1)
           | Inr versions \<Rightarrow> (Inr versions, s1)))"

definition getSupportedVersions ::
  "('n, 'p) env \<Rightarrow> state \<Rightarrow> (js_error + 'n js_value) \<times> state" where
  "getSupportedVersions env s =
     (case ensurePyodideReady env s of
        (Inl e, s1) \<Rightarrow> (Inl e, s1)
      | (Inr u, s1) \<Rightarrow>
          (case getSupportedVersions_try env s1 of
             (Inl error, s2) \<Rightarrow>
               (Inr fallback_versions,
                emit (Console ErrorLevel ''Error getting supported versions:'' (Some error)) s2)
           | (Inr versions, s2) \<Rightarrow> (Inr versions, s2)))"

subsection \<open>The four wrappers as one call\<close>

datatype 'n remote_call =
    ParseDatamodelLogs string
  | DetectSpecVersion "'n js_value"
  | ValidateDeviceConformance "'n js_value" string
  | GetSupportedVersions

fun invoke :: "('n, 'p) env \<Rightarrow> 'n remote_call \<Rightarrow> state \<Rightarrow> (js_error + 'n js_value) \<times> state" where
  "invoke env (ParseDatamodelLogs logData) s = parseDatamodelLogs env logData s"
| "invoke env (DetectSpecVersion parsedData) s = detectSpecVersion env parsedData s"
| "invoke env (ValidateDeviceConformance parsedData specVersion) s =
     validateDeviceConformance env parsedData specVersion s"
| "invoke env GetSupportedVersions s = getSupportedVersions env s"

text \<open>The scripts that call into the validation package.\<close>

definition is_delegate_call :: "event \<Rightarrow> bool" where
  "is_delegate_call e =
     (e = RunPythonAsync CallParse \<or> e = RunPythonAsync CallDetect \<or>
      e = RunPythonAsync CallValidate \<or> e = RunPythonAsync ListVersions)"

definition delegate_calls :: "event list \<Rightarrow> event list" where
  "delegate_calls tr = filter is_delegate_call tr"

subsection \<open>Reading the trace\<close>

text \<open>The scripts run, the pages fetched and the files written, each in order.\<close>

fun script_of :: "event \<Rightarrow> script option" where
  "script_of (RunPython sc) = Some sc"
| "script_of (RunPythonAsync sc) = Some sc"
| "script_of e = None"

definition script_runs :: "event list \<Rightarrow> script list" where
  "script_runs tr = List.map_filter script_of tr"

fun fetch_of :: "event \<Rightarrow> string option" where
  "fetch_of (Fetch url) = Some url"
| "fetch_of e = None"

definition fetches :: "event list \<Rightarrow> string list" where
  "fetches tr = List.map_filter fetch_of tr"

fun write_of :: "event \<Rightarrow> (string \<times> string) option" where
  "write_of (WriteFile path content) = Some (path, content)"
| "write_of e = None"

definition writes :: "event list \<Rightarrow> (string \<times> string) list" where
  "writes tr = List.map_filter write_of tr"

text \<open>The console output, in order: level, message and the error object logged with it.\<close>

fun console_of :: "event \<Rightarrow> (level \<times> string \<times> js_error option) option" where
  "console_of (Console l m err) = Some (l, m, err)"
| "console_of e = None"

definition console :: "event list \<Rightarrow> (level \<times> string \<times> js_error option) list" where
  "console tr = List.map_filter console_of tr"

subsection \<open>Sample environments\<close>

text \<open>
  Concrete environments at which the theorems below are instantiated. In \<open>sample_env\<close>
  every collaborator succeeds: no package URL is configured, every page is served with its
  own URL as its text, a Python object is represented by its JSON text, and the delegate
  detects version 1.4. The others differ from it in one collaborator each.
\<close>

definition sample_env :: "(nat, string) env" where
  "sample_env =
     \<lparr>window_DMV_PACKAGE_URL = None,
      loadPyodide = Inr 1,
      micropip_install = (\<lambda>package. None),
      pyodide_http_patch_all = None,
      make_data_dir = None,
      fetch = (\<lambda>url. Response True (Inr url)),
      FS_writeFile = (\<lambda>path content. None),
      patch_loader = None,
      python_outside_fragment = (\<lambda>text. Inl (Error ''SyntaxError'')),
      import_module = (\<lambda>name. None),
      json_loads = (\<lambda>text. Inr text),
      json_dumps = (\<lambda>obj. Inr obj),
      parse_datamodel_logs = (\<lambda>text. Inr text),
      detect_spec_version_from_parsed_data = (\<lambda>obj. Inr (PyStr ''1.4'')),
      validate_device_conformance = (\<lambda>obj version. Inr obj),
      SUPPORTED_SPEC_VERSIONS = Inr ''[]'',
      JSON_parse = (\<lambda>text. Inr (JSString text)),
      JSON_stringify = (\<lambda>v. Inr ''{}'')\<rparr>"

text \<open>The runtime cannot be fetched.\<close>

definition env_boot_fails :: "(nat, string) env" where
  "env_boot_fails = sample_env\<lparr>loadPyodide := Inl (Error ''NetworkError'')\<rparr>"

text \<open>Only the support package can be installed; no package URL is configured.\<close>

definition env_index_down :: "(nat, string) env" where
  "env_index_down =
     sample_env\<lparr>micropip_install :=
       (\<lambda>package. if package = ''pyodide-http'' then None else Some (Error ''no wheel found''))\<rparr>"

text \<open>A package URL is configured and its wheel installs.\<close>

definition env_wheel :: "(nat, string) env" where
  "env_wheel = sample_env\<lparr>window_DMV_PACKAGE_URL := Some ''https://example.org/dmv_tool.whl''\<rparr>"

text \<open>A package URL is configured, and neither the wheel nor the index package installs.\<close>

definition env_wheel_index_down :: "(nat, string) env" where
  "env_wheel_index_down =
     env_index_down\<lparr>window_DMV_PACKAGE_URL := Some ''https://example.org/dmv_tool.whl''\<rparr>"

text \<open>The package installs from the index, and the script patching the data loader raises.\<close>

definition env_patch_fails :: "(nat, string) env" where
  "env_patch_fails = sample_env\<lparr>patch_loader := Some (Error ''ModuleNotFoundError'')\<rparr>"

text \<open>The page of version 1.4.1 cannot be fetched.\<close>

definition env_fetch_fails :: "(nat, string) env" where
  "env_fetch_fails =
     sample_env\<lparr>fetch :=
       (\<lambda>url. if url = ''data/validation_data_1.4.1.json''
              then FetchRejected (Error ''Failed to fetch'')
              else Response True (Inr url))\<rparr>"

text \<open>The page of version 1.4.1 is answered with a status that is not ok (such as 404).\<close>

definition env_not_found :: "(nat, string) env" where
  "env_not_found =
     sample_env\<lparr>fetch :=
       (\<lambda>url. if url = ''data/validation_data_1.4.1.json''
              then Response False (Inr ''Not Found'')
              else Response True (Inr url))\<rparr>"

text \<open>The Python delegates raise.\<close>

definition env_delegates_fail :: "(nat, string) env" where
  "env_delegates_fail =
     sample_env\<lparr>parse_datamodel_logs := (\<lambda>text. Inl (Error ''ValueError: bad log'')),
                detect_spec_version_from_parsed_data := (\<lambda>obj. Inl (Error ''KeyError: endpoints'')),
                validate_device_conformance := (\<lambda>obj version. Inl (Error ''KeyError: clusters'')),
                SUPPORTED_SPEC_VERSIONS := Inl (Error ''ImportError: configs'')\<rparr>"

text \<open>The delegate detects no version.\<close>

definition env_no_version :: "(nat, string) env" where
  "env_no_version = sample_env\<lparr>detect_spec_version_from_parsed_data := (\<lambda>obj. Inr PyNone)\<rparr>"

section \<open>Frame lemmas\<close>

lemma emit_simps [simp]:
  "pyodide (emit e s) = pyodide s"
  "pythonModulesLoaded (emit e s) = pythonModulesLoaded s"
  "initializationPromise (emit e s) = initializationPromise s"
  "fs (emit e s) = fs s"
  "py_globals (emit e s) = py_globals s"
  "trace (emit e s) = trace s @ [e]"
  by (simp_all add: emit_def)

lemma delegate_calls_simps [simp]:
  "delegate_calls [] = []"
  "delegate_calls (tr @ tr') = delegate_calls tr @ delegate_calls tr'"
  "delegate_calls (e # tr) = (if is_delegate_call e then e # delegate_calls tr else delegate_calls tr)"
  by (simp_all add: delegate_calls_def)

lemma is_delegate_call_simps [simp]:
  "\<not> is_delegate_call LoadPyodide"
  "\<not> is_delegate_call (RunPython sc)"
  "is_delegate_call (RunPythonAsync sc) = (sc \<in> {CallParse, CallDetect, CallValidate, ListVersions})"
  "\<not> is_delegate_call (Fetch url)"
  "\<not> is_delegate_call (WriteFile path content)"
  "\<not> is_delegate_call (GlobalsSet name v)"
  "\<not> is_delegate_call (Console l m eo)"
  by (auto simp: is_delegate_call_def)

lemma script_runs_simps [simp]:
  "script_runs [] = []"
  "script_runs (tr @ tr') = script_runs tr @ script_runs tr'"
  "script_runs (e # tr) = (case script_of e of None \<Rightarrow> script_runs tr | Some sc \<Rightarrow> sc # script_runs tr)"
  by (auto simp: script_runs_def map_filter_def split: option.splits)

lemma fetches_simps [simp]:
  "fetches [] = []"
  "fetches (tr @ tr') = fetches tr @ fetches tr'"
  "fetches (e # tr) = (case fetch_of e of None \<Rightarrow> fetches tr | Some u \<Rightarrow> u # fetches tr)"
  by (auto simp: fetches_def map_filter_def split: option.splits)

lemma writes_simps [simp]:
  "writes [] = []"
  "writes (tr @ tr') = writes tr @ writes tr'"
  "writes (e # tr) = (case write_of e of None \<Rightarrow> writes tr | Some w \<Rightarrow> w # writes tr)"
  by (auto simp: writes_def map_filter_def split: option.splits)

lemma console_simps [simp]:
  "console [] = []"
  "console (tr @ tr') = console tr @ console tr'"
  "console (e # tr) = (case console_of e of None \<Rightarrow> console tr | Some c \<Rightarrow> c # console tr)"
  by (auto simp: console_def map_filter_def split: option.splits)

lemma load_version_keeps [simp]:
  "pyodide (load_version env v s) = pyodide s"
  "pythonModulesLoaded (load_version env v s) = pythonModulesLoaded s"
  "initializationPromise (load_version env v s) = initializationPromise s"
  "py_globals (load_version env v s) = py_globals s"
  "delegate_calls (trace (load_version env v s)) = delegate_calls (trace s)"
  "script_runs (trace (load_version env v s)) = script_runs (trace s)"
  "fetches (trace (load_version env v s)) = fetches (trace s) @ [fetch_url v]"
  by (simp_all add: load_version_def warn_version_def Let_def
        split: fetch_outcome.splits sum.splits option.splits)

lemma load_validation_data_keeps [simp]:
  "pyodide (load_validation_data env vs s) = pyodide s"
  "pythonModulesLoaded (load_validation_data env vs s) = pythonModulesLoaded s"
  "initializationPromise (load_validation_data env vs s) = initializationPromise s"
  "py_globals (load_validation_data env vs s) = py_globals s"
  "delegate_calls (trace (load_validation_data env vs s)) = delegate_calls (trace s)"
  "script_runs (trace (load_validation_data env vs s)) = script_runs (trace s)"
  "fetches (trace (load_validation_data env vs s)) = fetches (trace s) @ map fetch_url vs"
  by (induction vs arbitrary: s; simp)+

lemma loadBundledModules_keeps [simp]:
  "pyodide (snd (loadBundledModules env s)) = pyodide s"
  "initializationPromise (snd (loadBundledModules env s)) = initializationPromise s"
  "py_globals (snd (loadBundledModules env s)) = py_globals s"
  "delegate_calls (trace (snd (loadBundledModules env s))) = delegate_calls (trace s)"
  by (simp_all add: loadBundledModules_def loadBundledModules_try_def Let_def
        split: option.splits)

lemma load_package_keeps [simp]:
  "pyodide (snd (load_package env s)) = pyodide s"
  "initializationPromise (snd (load_package env s)) = initializationPromise s"
  "py_globals (snd (load_package env s)) = py_globals s"
  "delegate_calls (trace (snd (load_package env s))) = delegate_calls (trace s)"
  by (simp_all add: load_package_def Let_def split: option.splits)

lemma initializePyodide_keeps [simp]:
  "initializationPromise (snd (initializePyodide env s)) = initializationPromise s"
  "py_globals (snd (initializePyodide env s)) = py_globals s"
  "delegate_calls (trace (snd (initializePyodide env s))) = delegate_calls (trace s)"
  by (simp_all add: initializePyodide_def Let_def case_prod_beta
        split: option.splits sum.splits)

lemma initializePyodide_handle:
  "fst (initializePyodide env s) = Inr h \<Longrightarrow> pyodide (snd (initializePyodide env s)) = Some h"
  by (simp add: initializePyodide_def Let_def case_prod_beta
        split: option.splits sum.splits)

lemma ensurePyodideReady_keeps [simp]:
  "initializationPromise (snd (ensurePyodideReady env s)) = initializationPromise s"
  "py_globals (snd (ensurePyodideReady env s)) = py_globals s"
  "delegate_calls (trace (snd (ensurePyodideReady env s))) = delegate_calls (trace s)"
  by (simp_all add: ensurePyodideReady_def case_prod_beta split: option.splits sum.splits)

lemma ensurePyodideReady_gate:
  assumes "fst (ensurePyodideReady env s) = Inr u"
  shows "pyodide (snd (ensurePyodideReady env s)) \<noteq> None \<and>
         pythonModulesLoaded (snd (ensurePyodideReady env s))"
  using assms initializePyodide_handle [of env s]
  by (auto simp: ensurePyodideReady_def case_prod_beta split: option.splits sum.splits if_splits)

lemma ensure_ready_loaded:
  "pyodide s = Some h \<Longrightarrow> pythonModulesLoaded s \<Longrightarrow> ensurePyodideReady env s = (Inr (), s)"
  by (simp add: ensurePyodideReady_def)

lemma ensure_ready_not_loaded:
  "pyodide s = Some h \<Longrightarrow> \<not> pythonModulesLoaded s \<Longrightarrow>
   ensurePyodideReady env s = (Inl modules_not_loaded, s)"
  by (simp add: ensurePyodideReady_def)

lemma globals_set_simps [simp]:
  "pyodide (globals_set name v s) = pyodide s"
  "pythonModulesLoaded (globals_set name v s) = pythonModulesLoaded s"
  "initializationPromise (globals_set name v s) = initializationPromise s"
  "py_globals (globals_set name v s) = (py_globals s)(name \<mapsto> v)"
  "trace (globals_set name v s) = trace s @ [GlobalsSet name v]"
  by (simp_all add: globals_set_def)

lemma try_keeps [simp]:
  "pyodide (snd (parseDatamodelLogs_try env l s)) = pyodide s"
  "pythonModulesLoaded (snd (parseDatamodelLogs_try env l s)) = pythonModulesLoaded s"
  "pyodide (snd (detectSpecVersion_try env pd s)) = pyodide s"
  "pythonModulesLoaded (snd (detectSpecVersion_try env pd s)) = pythonModulesLoaded s"
  "pyodide (snd (validateDeviceConformance_try env pd v s)) = pyodide s"
  "pythonModulesLoaded (snd (validateDeviceConformance_try env pd v s)) = pythonModulesLoaded s"
  "pyodide (snd (getSupportedVersions_try env s)) = pyodide s"
  "pythonModulesLoaded (snd (getSupportedVersions_try env s)) = pythonModulesLoaded s"
  by (simp_all add: parseDatamodelLogs_try_def detectSpecVersion_try_def
        validateDeviceConformance_try_def getSupportedVersions_try_def Let_def
        split: sum.splits)

lemma invoke_not_ready:
  assumes "fst (ensurePyodideReady env s) = Inl e"
  shows "invoke env c s = (Inl e, snd (ensurePyodideReady env s))"
  using assms
  by (cases c; cases "ensurePyodideReady env s")
     (simp_all add: parseDatamodelLogs_def detectSpecVersion_def validateDeviceConformance_def
        getSupportedVersions_def)

lemma invoke_ready:
  assumes "fst (ensurePyodideReady env s) = Inr u"
  shows "pyodide (snd (invoke env c s)) \<noteq> None \<and> pythonModulesLoaded (snd (invoke env c s))"
  using assms ensurePyodideReady_gate [OF assms]
  by (cases c; cases "ensurePyodideReady env s")
     (simp_all add: parseDatamodelLogs_def detectSpecVersion_def validateDeviceConformance_def
        getSupportedVersions_def case_prod_beta split: sum.splits)

section \<open>States reached by loading the module\<close>

lemmas init_defs =
  module_load_def getPyodide_def initializePyodide_def install_support_def load_package_def
  packageUrl_def loadBundledModules_def loadBundledModules_try_def validationDataVersions_def
  load_version_def warn_version_def fetch_url_def fs_path_def emit_def initial_state_def
  package_not_available_def

lemmas wrapper_defs =
  ensurePyodideReady_def modules_not_loaded_def
  parseDatamodelLogs_def parseDatamodelLogs_try_def escapeLogData_def assign_log_data_def
  parse_script_def detectSpecVersion_def detectSpecVersion_try_def detect_script_def
  validateDeviceConformance_def validateDeviceConformance_try_def validate_script_def
  getSupportedVersions_def getSupportedVersions_try_def versions_script_def globals_set_def
  fallback_versions_def name_error_def py_escape_def

lemmas env_defs =
  sample_env_def env_boot_fails_def env_index_down_def env_wheel_def env_wheel_index_down_def
  env_patch_fails_def env_fetch_fails_def env_not_found_def env_delegates_fail_def
  env_no_version_def

lemma module_load_sample:
  "pyodide (module_load sample_env) = Some 1"
  "pythonModulesLoaded (module_load sample_env)"
  "initializationPromise (module_load sample_env) = Some (Inr 1)"
  "py_globals (module_load sample_env) = Map.empty"
  by (simp_all add: init_defs env_defs Let_def)

lemma module_load_index_down:
  "pyodide (module_load env_index_down) = Some 1"
  "\<not> pythonModulesLoaded (module_load env_index_down)"
  "initializationPromise (module_load env_index_down) = Some (Inl package_not_available)"
  by (simp_all add: init_defs env_defs Let_def)

section \<open>What one run of the initialization does\<close>

text \<open>
  The outcome, the flag, the scripts run and the pages fetched, for \<open>loadBundledModules\<close>,
  for the package step and for the whole of \<open>initializePyodide\<close>, as functions of what the
  collaborators answer.
\<close>

lemma loadBundledModules_fst:
  "fst (loadBundledModules env s) =
     (case micropip_install env ''esp-matter-dm-validator'' of
        Some pipError \<Rightarrow> Inl package_not_available
      | None \<Rightarrow>
          (case make_data_dir env of
             Some e \<Rightarrow> Inl e
           | None \<Rightarrow> (case patch_loader env of Some e \<Rightarrow> Inl e | None \<Rightarrow> Inr ())))"
  by (simp add: loadBundledModules_def loadBundledModules_try_def Let_def split: option.splits)

lemma loadBundledModules_flag:
  "pythonModulesLoaded (snd (loadBundledModules env s)) =
     (pythonModulesLoaded s \<or> micropip_install env ''esp-matter-dm-validator'' = None)"
  by (simp add: loadBundledModules_def loadBundledModules_try_def Let_def split: option.splits)

lemma loadBundledModules_scripts:
  "script_runs (trace (snd (loadBundledModules env s))) =
     script_runs (trace s) @ [InstallPyPI] @
     (case micropip_install env ''esp-matter-dm-validator'' of
        Some pipError \<Rightarrow> []
      | None \<Rightarrow> MakeDataDir # (case make_data_dir env of Some e \<Rightarrow> [] | None \<Rightarrow> [PatchLoader]))"
  by (simp add: loadBundledModules_def loadBundledModules_try_def Let_def split: option.splits)

lemma loadBundledModules_fetches:
  "fetches (trace (snd (loadBundledModules env s))) =
     fetches (trace s) @
     (if micropip_install env ''esp-matter-dm-validator'' = None \<and> make_data_dir env = None
      then map fetch_url validationDataVersions else [])"
  by (simp add: loadBundledModules_def loadBundledModules_try_def Let_def split: option.splits)

lemma loadBundledModules_fst_indep:
  "fst (loadBundledModules env s) = fst (loadBundledModules env s')"
  by (simp add: loadBundledModules_fst)

lemma load_package_fst_indep:
  "fst (load_package env s) = fst (load_package env s')"
proof (cases "packageUrl env")
  case None
  then show ?thesis
    by (simp add: load_package_def loadBundledModules_fst_indep [of env s s'])
next
  case (Some url)
  then show ?thesis
    by (cases "micropip_install env url")
       (simp_all add: load_package_def Let_def loadBundledModules_fst)
qed

lemma load_package_fst:
  "fst (load_package env s) =
     (case packageUrl env of
        None \<Rightarrow> fst (loadBundledModules env s)
      | Some url \<Rightarrow>
          (case micropip_install env url of
             None \<Rightarrow> Inr ()
           | Some error \<Rightarrow> fst (loadBundledModules env s)))"
proof (cases "packageUrl env")
  case None
  then show ?thesis by (simp add: load_package_def)
next
  case (Some url)
  then show ?thesis
    by (cases "micropip_install env url")
       (simp_all add: load_package_def Let_def loadBundledModules_fst)
qed

lemma load_package_flag:
  "pythonModulesLoaded (snd (load_package env s)) =
     (pythonModulesLoaded s \<or>
      (case packageUrl env of
         None \<Rightarrow> micropip_install env ''esp-matter-dm-validator'' = None
       | Some url \<Rightarrow>
           micropip_install env url = None \<or>
           micropip_install env ''esp-matter-dm-validator'' = None))"
  by (auto simp: load_package_def loadBundledModules_flag Let_def split: option.splits)

lemma load_package_scripts:
  "script_runs (trace (snd (load_package env s))) =
     (case packageUrl env of
        None \<Rightarrow> script_runs (trace (snd (loadBundledModules env s)))
      | Some url \<Rightarrow>
          (case micropip_install env url of
             None \<Rightarrow> script_runs (trace s) @ [InstallWheel url]
           | Some error \<Rightarrow>
               script_runs (trace s) @ [InstallWheel url] @
               drop (length (script_runs (trace s)))
                 (script_runs (trace (snd (loadBundledModules env s))))))"
  by (simp add: load_package_def loadBundledModules_scripts Let_def split: option.splits)

lemma load_package_wheel:
  assumes "packageUrl env = Some url" and "micropip_install env url = None"
  shows "fs (snd (load_package env s)) = fs s"
    and "fetches (trace (snd (load_package env s))) = fetches (trace s)"
  using assms by (simp_all add: load_package_def Let_def)

lemma load_package_fetches:
  "fetches (trace (snd (load_package env s))) =
     fetches (trace s) @
     (if (case packageUrl env of None \<Rightarrow> True | Some url \<Rightarrow> micropip_install env url \<noteq> None) \<and>
         micropip_install env ''esp-matter-dm-validator'' = None \<and> make_data_dir env = None
      then map fetch_url validationDataVersions else [])"
proof (cases "packageUrl env")
  case None
  then show ?thesis
    by (simp add: load_package_def loadBundledModules_fetches)
next
  case (Some url)
  show ?thesis
  proof (cases "micropip_install env url")
    case None
    with Some show ?thesis by (simp add: load_package_wheel(2))
  next
    case (Some error)
    with \<open>packageUrl env = Some url\<close> show ?thesis
      by (simp add: load_package_def Let_def loadBundledModules_fetches)
  qed
qed

lemma initializePyodide_run:
  assumes "pyodide s = None" and "loadPyodide env = Inr h" and "install_support env = None"
  shows "snd (initializePyodide env s) =
           snd (load_package env
             (emit (Console Log ''Loading dmv_tool package...'' None)
               (emit (RunPythonAsync InstallSupport)
                 (emit (Console Log ''Pyodide loaded, installing packages...'' None)
                   ((emit LoadPyodide (emit (Console Log ''Loading Pyodide...'' None) s))
                      \<lparr>pyodide := Some h\<rparr>)))))"
    (is "_ = snd (load_package env ?s3)")
    and "fst (initializePyodide env s) =
           (case fst (load_package env s) of Inl e \<Rightarrow> Inl e | Inr u \<Rightarrow> Inr h)"
proof -
  have unfolded: "initializePyodide env s =
      (case fst (load_package env ?s3) of
         Inl e \<Rightarrow> (Inl e, snd (load_package env ?s3))
       | Inr u \<Rightarrow> (Inr h, snd (load_package env ?s3)))"
    using assms
    by (simp add: initializePyodide_def Let_def case_prod_beta)
  show "snd (initializePyodide env s) = snd (load_package env ?s3)"
    by (cases "fst (load_package env ?s3)") (simp_all add: unfolded)
  have "fst (load_package env ?s3) = fst (load_package env s)"
    by (rule load_package_fst_indep)
  then show "fst (initializePyodide env s) =
           (case fst (load_package env s) of Inl e \<Rightarrow> Inl e | Inr u \<Rightarrow> Inr h)"
    by (cases "fst (load_package env s)") (simp_all add: unfolded)
qed

lemma initializePyodide_stops:
  assumes "pyodide s = None"
  shows "loadPyodide env = Inl e \<Longrightarrow>
           fst (initializePyodide env s) = Inl e \<and>
           pythonModulesLoaded (snd (initializePyodide env s)) = pythonModulesLoaded s"
    and "loadPyodide env = Inr h \<Longrightarrow> install_support env = Some e \<Longrightarrow>
           fst (initializePyodide env s) = Inl e \<and>
           pythonModulesLoaded (snd (initializePyodide env s)) = pythonModulesLoaded s"
  using assms by (simp_all add: initializePyodide_def Let_def)

lemma initializePyodide_flag:
  assumes "pyodide s = None"
  shows "pythonModulesLoaded (snd (initializePyodide env s)) =
     (pythonModulesLoaded s \<or>
      (\<exists>h. loadPyodide env = Inr h) \<and> install_support env = None \<and>
      (case packageUrl env of
         None \<Rightarrow> micropip_install env ''esp-matter-dm-validator'' = None
       | Some url \<Rightarrow>
           micropip_install env url = None \<or>
           micropip_install env ''esp-matter-dm-validator'' = None))"
proof (cases "loadPyodide env")
  case (Inl e)
  with initializePyodide_stops(1) [OF assms Inl] show ?thesis by simp
next
  case (Inr h)
  show ?thesis
  proof (cases "install_support env")
    case (Some e)
    with initializePyodide_stops(2) [OF assms Inr Some] show ?thesis by simp
  next
    case None
    with Inr show ?thesis
      by (simp add: initializePyodide_run(1) [OF assms Inr None] load_package_flag)
  qed
qed

lemma initializePyodide_scripts:
  assumes "pyodide s = None" and "loadPyodide env = Inr h" and "install_support env = None"
  shows "script_runs (trace (snd (initializePyodide env s))) =
     script_runs (trace s) @ [InstallSupport] @
     (case packageUrl env of
        None \<Rightarrow> []
      | Some url \<Rightarrow> [InstallWheel url]) @
     (if (case packageUrl env of None \<Rightarrow> True | Some url \<Rightarrow> micropip_install env url \<noteq> None)
      then [InstallPyPI] @
        (case micropip_install env ''esp-matter-dm-validator'' of
           Some pipError \<Rightarrow> []
         | None \<Rightarrow> MakeDataDir # (case make_data_dir env of Some e \<Rightarrow> [] | None \<Rightarrow> [PatchLoader]))
      else [])"
  by (simp add: initializePyodide_run(1) [OF assms] load_package_scripts
        loadBundledModules_scripts split: option.splits)

lemma initializePyodide_fetches:
  assumes "pyodide s = None" and "loadPyodide env = Inr h" and "install_support env = None"
  shows "fetches (trace (snd (initializePyodide env s))) =
     fetches (trace s) @
     (if (case packageUrl env of None \<Rightarrow> True | Some url \<Rightarrow> micropip_install env url \<noteq> None) \<and>
         micropip_install env ''esp-matter-dm-validator'' = None \<and> make_data_dir env = None
      then map fetch_url validationDataVersions else [])"
  by (simp add: initializePyodide_run(1) [OF assms] load_package_fetches)

lemma initializePyodide_wheel_fs:
  assumes "pyodide s = None" and "loadPyodide env = Inr h" and "install_support env = None"
    and "packageUrl env = Some url" and "micropip_install env url = None"
  shows "fs (snd (initializePyodide env s)) = fs s"
  by (simp add: initializePyodide_run(1) [OF assms(1-3)] load_package_wheel(1) [OF assms(4,5)])

section \<open>The gate in front of the remote calls\<close>

text \<open>
  Claim C1, as the code has it. A wrapper runs its delegate script only behind the gate of
  \<open>ensurePyodideReady\<close>, and the gate reads the two variables \<open>pyodide\<close> and
  \<open>pythonModulesLoaded\<close>: whenever a call of one of the four wrappers adds a delegate
  invocation to the trace, the runtime handle is set and the flag is true; and when the handle
  is set and the flag is false, the wrapper fails at once with the error "Python modules not
  loaded", leaving the state as it was.
\<close>

theorem remote_call_gate:
  "(delegate_calls (trace (snd (invoke env c s))) \<noteq> delegate_calls (trace s) \<longrightarrow>
      pyodide (snd (invoke env c s)) \<noteq> None \<and> pythonModulesLoaded (snd (invoke env c s))) \<and>
   (pyodide s \<noteq> None \<and> \<not> pythonModulesLoaded s \<longrightarrow>
      invoke env c s = (Inl modules_not_loaded, s))"
proof (rule conjI; rule impI)
  assume called: "delegate_calls (trace (snd (invoke env c s))) \<noteq> delegate_calls (trace s)"
  show "pyodide (snd (invoke env c s)) \<noteq> None \<and> pythonModulesLoaded (snd (invoke env c s))"
  proof (cases "fst (ensurePyodideReady env s)")
    case (Inl e)
    from invoke_not_ready [OF Inl]
    have "delegate_calls (trace (snd (invoke env c s))) = delegate_calls (trace s)"
      by simp
    with called show ?thesis by simp
  next
    case (Inr u)
    then show ?thesis by (rule invoke_ready)
  qed
next
  assume "pyodide s \<noteq> None \<and> \<not> pythonModulesLoaded s"
  then obtain h where h: "pyodide s = Some h" "\<not> pythonModulesLoaded s" by auto
  from invoke_not_ready [of env s modules_not_loaded c] ensure_ready_not_loaded [OF h, of env]
  show "invoke env c s = (Inl modules_not_loaded, s)" by simp
qed

text \<open>
  The theorem at work: after a module load in which everything succeeds, listing the versions
  runs the delegate script behind an open gate; after a module load in which the package
  could not be installed, the same call fails with "Python modules not loaded".
\<close>

theorem remote_call_gate_witness:
  "delegate_calls (trace (snd (invoke sample_env GetSupportedVersions (module_load sample_env))))
     \<noteq> delegate_calls (trace (module_load sample_env)) \<and>
   pyodide (snd (invoke sample_env GetSupportedVersions (module_load sample_env))) \<noteq> None \<and>
   pythonModulesLoaded (snd (invoke sample_env GetSupportedVersions (module_load sample_env))) \<and>
   pyodide (module_load env_index_down) \<noteq> None \<and>
   \<not> pythonModulesLoaded (module_load env_index_down) \<and>
   invoke env_index_down (ParseDatamodelLogs ''x'') (module_load env_index_down)
     = (Inl modules_not_loaded, module_load env_index_down)"
proof -
  have called:
    "delegate_calls (trace (snd (invoke sample_env GetSupportedVersions (module_load sample_env))))
       \<noteq> delegate_calls (trace (module_load sample_env))"
    by (simp add: getSupportedVersions_def getSupportedVersions_try_def
          ensure_ready_loaded [OF module_load_sample(1,2)] Let_def split: sum.splits)
  have closed:
    "pyodide (module_load env_index_down) \<noteq> None \<and> \<not> pythonModulesLoaded (module_load env_index_down)"
    by (simp add: module_load_index_down)
  from remote_call_gate [of sample_env GetSupportedVersions "module_load sample_env"]
       remote_call_gate [of env_index_down "ParseDatamodelLogs ''x''" "module_load env_index_down"]
       called closed
  show ?thesis by blast
qed

text \<open>
  Claim C1 as stated fails: the lifecycle need not be Ready. The package installs from the
  index, which sets \<open>pythonModulesLoaded\<close> (line 69); the script that patches the data loader
  then raises, so the initialization is rejected and the lifecycle is Failed. A later
  \<open>parseDatamodelLogs\<close> passes the gate and runs its delegate.
\<close>

theorem remote_call_gate_counterexample:
  "readinessState (module_load env_patch_fails) = Failed (Error ''ModuleNotFoundError'') \<and>
   fst (parseDatamodelLogs env_patch_fails ''x'' (module_load env_patch_fails)) = Inr (JSString ''x'') \<and>
   delegate_calls (new_events (module_load env_patch_fails)
      (snd (parseDatamodelLogs env_patch_fails ''x'' (module_load env_patch_fails))))
     = [RunPythonAsync CallParse]"
  by (simp add: init_defs wrapper_defs env_defs readinessState_def new_events_def Let_def)

section \<open>The memoized initialization\<close>

lemma getPyodide_memoized:
  "initializationPromise s = Some r \<Longrightarrow> getPyodide env s = (r, s)"
  by (simp add: getPyodide_def)

lemma getPyodide_settles:
  "initializationPromise (snd (getPyodide env s)) \<noteq> None"
  by (simp add: getPyodide_def case_prod_beta split: option.splits)

lemma getPyodide_same_outcome:
  "getPyodide env' (snd (getPyodide env s)) = getPyodide env s"
  by (cases "initializationPromise s")
     (simp_all add: getPyodide_def case_prod_beta)

lemma invoke_keeps_promise:
  "initializationPromise (snd (invoke env c s)) = initializationPromise s"
  by (cases c)
     (simp_all add: parseDatamodelLogs_def parseDatamodelLogs_try_def detectSpecVersion_def
        detectSpecVersion_try_def validateDeviceConformance_def validateDeviceConformance_try_def
        getSupportedVersions_def getSupportedVersions_try_def Let_def case_prod_beta
        split: sum.splits)

text \<open>
  Claim C2 at a failing input. \<open>getPyodide\<close> keeps its promise (the three lemmas above), but
  \<open>ensurePyodideReady\<close> calls \<open>initializePyodide\<close> itself whenever the handle is null. When the
  runtime cannot be fetched at module load, the lifecycle is Failed; a later
  \<open>getSupportedVersions\<close>, made when the runtime can be fetched, runs the whole initialization
  a second time (the runtime is loaded twice) and succeeds, while \<open>getPyodide\<close> still gives
  the first failure.
\<close>

theorem initialization_runs_twice:
  "readinessState (module_load env_boot_fails) = Failed (Error ''NetworkError'') \<and>
   fst (getSupportedVersions sample_env (module_load env_boot_fails)) = Inr (JSString ''[]'') \<and>
   count_list (trace (snd (getSupportedVersions sample_env (module_load env_boot_fails))))
     LoadPyodide = 2 \<and>
   pyodide (snd (getSupportedVersions sample_env (module_load env_boot_fails))) = Some 1 \<and>
   pythonModulesLoaded (snd (getSupportedVersions sample_env (module_load env_boot_fails))) \<and>
   fst (getPyodide sample_env (snd (getSupportedVersions sample_env (module_load env_boot_fails))))
     = Inl (Error ''NetworkError'')"
proof -
  have first: "module_load env_boot_fails =
      \<lparr>pyodide = None, pythonModulesLoaded = False,
       initializationPromise = Some (Inl (Error ''NetworkError'')),
       fs = Map.empty, py_globals = Map.empty,
       trace = [Console Log ''Loading Pyodide...'' None, LoadPyodide,
                Console ErrorLevel ''Failed to initialize Pyodide:'' (Some (Error ''NetworkError''))]\<rparr>"
    by (simp add: init_defs env_defs Let_def)
  show ?thesis
    unfolding first
    by (simp add: init_defs wrapper_defs env_defs readinessState_def Let_def)
qed

section \<open>When the flag is set\<close>

text \<open>
  Claim C3, as the code has it, for a run of \<open>initializePyodide\<close> that starts with no handle
  and the flag false. The flag is true afterwards only if the runtime was loaded, the support
  script succeeded and the validation package was installed, from the configured URL or from
  the index. When the wheel of the configured URL installs, the run succeeds with the flag
  true, no page fetched, no file written and no script run after the install: provisioning
  and patching are skipped. A run that succeeds without the wheel has installed the package
  from the index, fetched the page of every version and run the data-directory and patch
  scripts last.
\<close>

theorem module_flag_after_install:
  assumes "pyodide s = None" and "\<not> pythonModulesLoaded s"
  shows "(pythonModulesLoaded (snd (initializePyodide env s)) \<longrightarrow>
            (\<exists>h. loadPyodide env = Inr h) \<and> install_support env = None \<and>
            ((\<exists>url. packageUrl env = Some url \<and> micropip_install env url = None) \<or>
             micropip_install env ''esp-matter-dm-validator'' = None)) \<and>
         (\<forall>h url. loadPyodide env = Inr h \<and> install_support env = None \<and>
              packageUrl env = Some url \<and> micropip_install env url = None \<longrightarrow>
              fst (initializePyodide env s) = Inr h \<and>
              pythonModulesLoaded (snd (initializePyodide env s)) \<and>
              fs (snd (initializePyodide env s)) = fs s \<and>
              fetches (trace (snd (initializePyodide env s))) = fetches (trace s) \<and>
              script_runs (trace (snd (initializePyodide env s)))
                = script_runs (trace s) @ [InstallSupport, InstallWheel url]) \<and>
         (\<forall>h. fst (initializePyodide env s) = Inr h \<longrightarrow>
              pythonModulesLoaded (snd (initializePyodide env s)) \<and>
              ((\<exists>url. packageUrl env = Some url \<and> micropip_install env url = None) \<or>
               micropip_install env ''esp-matter-dm-validator'' = None \<and>
               make_data_dir env = None \<and> patch_loader env = None \<and>
               fetches (trace (snd (initializePyodide env s)))
                 = fetches (trace s) @ map fetch_url validationDataVersions \<and>
               (\<exists>before. script_runs (trace (snd (initializePyodide env s)))
                  = before @ [InstallPyPI, MakeDataDir, PatchLoader])))"
proof -
  have flag_only: "(\<exists>h. loadPyodide env = Inr h) \<and> install_support env = None \<and>
      ((\<exists>url. packageUrl env = Some url \<and> micropip_install env url = None) \<or>
       micropip_install env ''esp-matter-dm-validator'' = None)"
    if "pythonModulesLoaded (snd (initializePyodide env s))"
    using that assms by (auto simp: initializePyodide_flag split: option.splits)
  have wheel_route: "fst (initializePyodide env s) = Inr h \<and>
      pythonModulesLoaded (snd (initializePyodide env s)) \<and>
      fs (snd (initializePyodide env s)) = fs s \<and>
      fetches (trace (snd (initializePyodide env s))) = fetches (trace s) \<and>
      script_runs (trace (snd (initializePyodide env s)))
        = script_runs (trace s) @ [InstallSupport, InstallWheel url]"
    if run: "loadPyodide env = Inr h" "install_support env = None"
      and url: "packageUrl env = Some url" "micropip_install env url = None"
    for h url
  proof -
    have "fst (initializePyodide env s) = Inr h"
      by (simp add: initializePyodide_run(2) [OF assms(1) run] load_package_fst url)
    moreover have "pythonModulesLoaded (snd (initializePyodide env s))"
      using run url by (simp add: initializePyodide_flag [OF assms(1)])
    moreover have "fs (snd (initializePyodide env s)) = fs s"
      by (rule initializePyodide_wheel_fs [OF assms(1) run url])
    moreover have "fetches (trace (snd (initializePyodide env s))) = fetches (trace s)"
      by (simp add: initializePyodide_fetches [OF assms(1) run] url)
    moreover have "script_runs (trace (snd (initializePyodide env s)))
          = script_runs (trace s) @ [InstallSupport, InstallWheel url]"
      by (simp add: initializePyodide_scripts [OF assms(1) run] url)
    ultimately show ?thesis by blast
  qed
  have success: "pythonModulesLoaded (snd (initializePyodide env s)) \<and>
      ((\<exists>url. packageUrl env = Some url \<and> micropip_install env url = None) \<or>
       micropip_install env ''esp-matter-dm-validator'' = None \<and>
       make_data_dir env = None \<and> patch_loader env = None \<and>
       fetches (trace (snd (initializePyodide env s)))
         = fetches (trace s) @ map fetch_url validationDataVersions \<and>
       (\<exists>before. script_runs (trace (snd (initializePyodide env s)))
          = before @ [InstallPyPI, MakeDataDir, PatchLoader]))"
    if ok: "fst (initializePyodide env s) = Inr h" for h
  proof -
    have boot: "loadPyodide env = Inr h"
    proof (cases "loadPyodide env")
      case (Inl e)
      with initializePyodide_stops(1) [OF assms(1) Inl] ok show ?thesis by simp
    next
      case (Inr h')
      show ?thesis
      proof (cases "install_support env")
        case (Some e)
        with initializePyodide_stops(2) [OF assms(1) Inr Some] ok show ?thesis by simp
      next
        case None
        with initializePyodide_run(2) [OF assms(1) Inr None] ok Inr show ?thesis
          by (simp split: sum.splits)
      qed
    qed
    have support: "install_support env = None"
    proof (cases "install_support env")
      case (Some e)
      with initializePyodide_stops(2) [OF assms(1) boot Some] ok show ?thesis by simp
    qed simp
    have package: "fst (load_package env s) = Inr ()"
      using initializePyodide_run(2) [OF assms(1) boot support] ok
      by (simp split: sum.splits)
    have loaded: "pythonModulesLoaded (snd (initializePyodide env s))"
      using package boot support
      by (auto simp: initializePyodide_flag [OF assms(1)] load_package_fst loadBundledModules_fst
            split: option.splits)
    show ?thesis
    proof (cases "\<exists>url. packageUrl env = Some url \<and> micropip_install env url = None")
      case True
      with loaded show ?thesis by simp
    next
      case False
      then have route: "(case packageUrl env of None \<Rightarrow> True
                         | Some url \<Rightarrow> micropip_install env url \<noteq> None)"
        by (simp split: option.splits)
      from package False have bundled: "fst (loadBundledModules env s) = Inr ()"
        by (auto simp: load_package_fst split: option.splits)
      then have steps: "micropip_install env ''esp-matter-dm-validator'' = None"
          "make_data_dir env = None" "patch_loader env = None"
        by (simp_all add: loadBundledModules_fst split: option.splits)
      have "fetches (trace (snd (initializePyodide env s)))
              = fetches (trace s) @ map fetch_url validationDataVersions"
        using route steps by (simp add: initializePyodide_fetches [OF assms(1) boot support])
      moreover have "script_runs (trace (snd (initializePyodide env s))) =
          (script_runs (trace s) @ [InstallSupport] @
           (case packageUrl env of None \<Rightarrow> [] | Some url \<Rightarrow> [InstallWheel url])) @
          [InstallPyPI, MakeDataDir, PatchLoader]"
        using route steps by (simp add: initializePyodide_scripts [OF assms(1) boot support])
      ultimately show ?thesis using steps loaded by blast
    qed
  qed
  from flag_only wheel_route success show ?thesis by blast
qed

theorem module_flag_after_install_witness:
  "pyodide initial_state = None \<and> \<not> pythonModulesLoaded initial_state \<and>
   loadPyodide env_wheel = Inr 1 \<and> install_support env_wheel = None \<and>
   packageUrl env_wheel = Some ''https://example.org/dmv_tool.whl'' \<and>
   micropip_install env_wheel ''https://example.org/dmv_tool.whl'' = None \<and>
   fst (initializePyodide env_wheel initial_state) = Inr 1 \<and>
   pythonModulesLoaded (snd (initializePyodide env_wheel initial_state)) \<and>
   fs (snd (initializePyodide env_wheel initial_state)) = fs initial_state \<and>
   fst (initializePyodide sample_env initial_state) = Inr 1 \<and>
   pythonModulesLoaded (snd (initializePyodide sample_env initial_state)) \<and>
   packageUrl sample_env = None \<and>
   fetches (trace (snd (initializePyodide sample_env initial_state)))
     = fetches (trace initial_state) @ map fetch_url validationDataVersions"
proof -
  have start: "pyodide initial_state = None" "\<not> pythonModulesLoaded initial_state"
    by (simp_all add: initial_state_def)
  have wheel: "loadPyodide env_wheel = Inr 1 \<and> install_support env_wheel = None \<and>
               packageUrl env_wheel = Some ''https://example.org/dmv_tool.whl'' \<and>
               micropip_install env_wheel ''https://example.org/dmv_tool.whl'' = None"
    by (simp add: env_defs install_support_def packageUrl_def)
  have index: "fst (initializePyodide sample_env initial_state) = Inr 1 \<and> packageUrl sample_env = None"
    by (simp add: init_defs env_defs Let_def)
  from module_flag_after_install [OF start, of env_wheel] wheel
  have r1: "fst (initializePyodide env_wheel initial_state) = Inr 1 \<and>
            pythonModulesLoaded (snd (initializePyodide env_wheel initial_state)) \<and>
            fs (snd (initializePyodide env_wheel initial_state)) = fs initial_state"
    by blast
  from module_flag_after_install [OF start, of sample_env] index
  have r2: "pythonModulesLoaded (snd (initializePyodide sample_env initial_state)) \<and>
            fetches (trace (snd (initializePyodide sample_env initial_state)))
              = fetches (trace initial_state) @ map fetch_url validationDataVersions"
    by auto
  from start wheel index r1 r2 show ?thesis by blast
qed

text \<open>
  Claim C3 as stated fails: with a package URL configured and its wheel installed, the module
  load ends Ready with the flag true, and its whole trace shows neither a fetch nor a file
  written nor the patch script.
\<close>

theorem module_flag_counterexample:
  "pythonModulesLoaded (module_load env_wheel) \<and>
   readinessState (module_load env_wheel) = Ready 1 \<and>
   fs (module_load env_wheel) = Map.empty \<and>
   trace (module_load env_wheel) =
     [Console Log ''Loading Pyodide...'' None, LoadPyodide,
      Console Log ''Pyodide loaded, installing packages...'' None,
      RunPythonAsync InstallSupport,
      Console Log ''Loading dmv_tool package...'' None,
      RunPythonAsync (InstallWheel ''https://example.org/dmv_tool.whl''),
      Console Log ''Python modules loaded from wheel'' None,
      Console Log ''Pyodide bridge ready'' None]"
  by (simp add: init_defs env_defs readinessState_def Let_def)

section \<open>The two install strategies\<close>

text \<open>
  Claim C4, as the code has it, for a run of \<open>initializePyodide\<close> that starts with no handle
  and gets past the runtime and the support script. The wheel of the configured URL is tried
  first, when a URL is configured, and the index package after it, only when there is no URL
  or the wheel failed. When every strategy tried has failed, the run fails with the fixed
  error thrown at line 77, the installer's own error having been logged as a warning, and
  the flag is left as it was. When the wheel installs, the run succeeds at once with the
  flag true. When the index package installs (with no URL, or after the wheel failed) and
  the data-directory and patch scripts succeed, the run succeeds with the flag true. A run
  that succeeds has installed the package by one of the two strategies.
\<close>

theorem package_install_strategies:
  assumes "pyodide s = None" and "loadPyodide env = Inr h" and "install_support env = None"
  shows "(\<forall>url e1 e2. packageUrl env = Some url \<and> micropip_install env url = Some e1 \<and>
              micropip_install env ''esp-matter-dm-validator'' = Some e2 \<longrightarrow>
              fst (initializePyodide env s) = Inl package_not_available \<and>
              pythonModulesLoaded (snd (initializePyodide env s)) = pythonModulesLoaded s \<and>
              script_runs (trace (snd (initializePyodide env s)))
                = script_runs (trace s) @ [InstallSupport, InstallWheel url, InstallPyPI] \<and>
              (Warn, ''Could not install from PyPI, trying to load Python files directly:'', Some e2)
                \<in> set (console (trace (snd (initializePyodide env s))))) \<and>
         (\<forall>e2. packageUrl env = None \<and>
              micropip_install env ''esp-matter-dm-validator'' = Some e2 \<longrightarrow>
              fst (initializePyodide env s) = Inl package_not_available \<and>
              pythonModulesLoaded (snd (initializePyodide env s)) = pythonModulesLoaded s \<and>
              script_runs (trace (snd (initializePyodide env s)))
                = script_runs (trace s) @ [InstallSupport, InstallPyPI] \<and>
              (Warn, ''Could not install from PyPI, trying to load Python files directly:'', Some e2)
                \<in> set (console (trace (snd (initializePyodide env s))))) \<and>
         (\<forall>url. packageUrl env = Some url \<and> micropip_install env url = None \<longrightarrow>
              fst (initializePyodide env s) = Inr h \<and>
              pythonModulesLoaded (snd (initializePyodide env s)) \<and>
              script_runs (trace (snd (initializePyodide env s)))
                = script_runs (trace s) @ [InstallSupport, InstallWheel url]) \<and>
         (\<forall>url e1. packageUrl env = Some url \<and> micropip_install env url = Some e1 \<and>
              micropip_install env ''esp-matter-dm-validator'' = None \<longrightarrow>
              (\<exists>after. script_runs (trace (snd (initializePyodide env s)))
                 = script_runs (trace s) @ [InstallSupport, InstallWheel url, InstallPyPI] @ after)) \<and>
         (packageUrl env = None \<and> micropip_install env ''esp-matter-dm-validator'' = None \<and>
              make_data_dir env = None \<and> patch_loader env = None \<longrightarrow>
              fst (initializePyodide env s) = Inr h \<and>
              pythonModulesLoaded (snd (initializePyodide env s)) \<and>
              script_runs (trace (snd (initializePyodide env s)))
                = script_runs (trace s) @ [InstallSupport, InstallPyPI, MakeDataDir, PatchLoader]) \<and>
         (\<forall>url e1. packageUrl env = Some url \<and> micropip_install env url = Some e1 \<and>
              micropip_install env ''esp-matter-dm-validator'' = None \<and>
              make_data_dir env = None \<and> patch_loader env = None \<longrightarrow>
              fst (initializePyodide env s) = Inr h \<and>
              pythonModulesLoaded (snd (initializePyodide env s)) \<and>
              script_runs (trace (snd (initializePyodide env s)))
                = script_runs (trace s) @
                  [InstallSupport, InstallWheel url, InstallPyPI, MakeDataDir, PatchLoader]) \<and>
         ((\<exists>h'. fst (initializePyodide env s) = Inr h') \<longrightarrow>
              (\<exists>url. packageUrl env = Some url \<and> micropip_install env url = None) \<or>
              micropip_install env ''esp-matter-dm-validator'' = None)"
proof -
  note outcome = initializePyodide_run(2) [OF assms]
  note flag = initializePyodide_flag [OF assms(1)]
  note scripts = initializePyodide_scripts [OF assms]
  note unfolded = initializePyodide_run(1) [OF assms]
  have both_fail: "fst (initializePyodide env s) = Inl package_not_available \<and>
      pythonModulesLoaded (snd (initializePyodide env s)) = pythonModulesLoaded s \<and>
      script_runs (trace (snd (initializePyodide env s)))
        = script_runs (trace s) @ [InstallSupport, InstallWheel url, InstallPyPI] \<and>
      (Warn, ''Could not install from PyPI, trying to load Python files directly:'', Some e2)
        \<in> set (console (trace (snd (initializePyodide env s))))"
    if "packageUrl env = Some url" and "micropip_install env url = Some e1"
      and "micropip_install env ''esp-matter-dm-validator'' = Some e2"
    for url e1 e2
  proof -
    have "(Warn, ''Could not install from PyPI, trying to load Python files directly:'', Some e2)
        \<in> set (console (trace (snd (initializePyodide env s))))"
      using that
      by (simp add: unfolded load_package_def loadBundledModules_def loadBundledModules_try_def
            Let_def)
    with that show ?thesis
      by (simp add: outcome flag scripts load_package_fst loadBundledModules_fst)
  qed
  have index_fails: "fst (initializePyodide env s) = Inl package_not_available \<and>
      pythonModulesLoaded (snd (initializePyodide env s)) = pythonModulesLoaded s \<and>
      script_runs (trace (snd (initializePyodide env s)))
        = script_runs (trace s) @ [InstallSupport, InstallPyPI] \<and>
      (Warn, ''Could not install from PyPI, trying to load Python files directly:'', Some e2)
        \<in> set (console (trace (snd (initializePyodide env s))))"
    if "packageUrl env = None" and "micropip_install env ''esp-matter-dm-validator'' = Some e2"
    for e2
  proof -
    have "(Warn, ''Could not install from PyPI, trying to load Python files directly:'', Some e2)
        \<in> set (console (trace (snd (initializePyodide env s))))"
      using that
      by (simp add: unfolded load_package_def loadBundledModules_def loadBundledModules_try_def
            Let_def)
    with that show ?thesis
      by (simp add: outcome flag scripts load_package_fst loadBundledModules_fst)
  qed
  have wheel: "fst (initializePyodide env s) = Inr h \<and>
      pythonModulesLoaded (snd (initializePyodide env s)) \<and>
      script_runs (trace (snd (initializePyodide env s)))
        = script_runs (trace s) @ [InstallSupport, InstallWheel url]"
    if "packageUrl env = Some url" and "micropip_install env url = None" for url
    using that assms(2,3) by (simp add: outcome flag scripts load_package_fst)
  have index_after_wheel: "\<exists>after. script_runs (trace (snd (initializePyodide env s)))
      = script_runs (trace s) @ [InstallSupport, InstallWheel url, InstallPyPI] @ after"
    if "packageUrl env = Some url" and "micropip_install env url = Some e1"
      and "micropip_install env ''esp-matter-dm-validator'' = None"
    for url e1
    using that by (simp add: scripts)
  have index_only: "fst (initializePyodide env s) = Inr h \<and>
      pythonModulesLoaded (snd (initializePyodide env s)) \<and>
      script_runs (trace (snd (initializePyodide env s)))
        = script_runs (trace s) @ [InstallSupport, InstallPyPI, MakeDataDir, PatchLoader]"
    if "packageUrl env = None" and "micropip_install env ''esp-matter-dm-validator'' = None"
      and "make_data_dir env = None" and "patch_loader env = None"
    using that assms(2,3)
    by (simp add: outcome flag scripts load_package_fst loadBundledModules_fst)
  have index_second: "fst (initializePyodide env s) = Inr h \<and>
      pythonModulesLoaded (snd (initializePyodide env s)) \<and>
      script_runs (trace (snd (initializePyodide env s)))
        = script_runs (trace s) @
          [InstallSupport, InstallWheel url, InstallPyPI, MakeDataDir, PatchLoader]"
    if "packageUrl env = Some url" and "micropip_install env url = Some e1"
      and "micropip_install env ''esp-matter-dm-validator'' = None"
      and "make_data_dir env = None" and "patch_loader env = None"
    for url e1
    using that assms(2,3)
    by (simp add: outcome flag scripts load_package_fst loadBundledModules_fst)
  have installed: "(\<exists>url. packageUrl env = Some url \<and> micropip_install env url = None) \<or>
      micropip_install env ''esp-matter-dm-validator'' = None"
    if "fst (initializePyodide env s) = Inr h'" for h'
    using that
    by (auto simp: outcome load_package_fst loadBundledModules_fst split: option.splits sum.splits)
  show ?thesis
  proof (intro conjI allI)
    show "packageUrl env = Some url \<and> micropip_install env url = Some e1 \<and>
          micropip_install env ''esp-matter-dm-validator'' = Some e2 \<longrightarrow>
          fst (initializePyodide env s) = Inl package_not_available \<and>
          pythonModulesLoaded (snd (initializePyodide env s)) = pythonModulesLoaded s \<and>
          script_runs (trace (snd (initializePyodide env s)))
            = script_runs (trace s) @ [InstallSupport, InstallWheel url, InstallPyPI] \<and>
          (Warn, ''Could not install from PyPI, trying to load Python files directly:'', Some e2)
            \<in> set (console (trace (snd (initializePyodide env s))))"
      for url e1 e2
      using both_fail [of url e1 e2] by blast
    show "packageUrl env = None \<and>
          micropip_install env ''esp-matter-dm-validator'' = Some e2 \<longrightarrow>
          fst (initializePyodide env s) = Inl package_not_available \<and>
          pythonModulesLoaded (snd (initializePyodide env s)) = pythonModulesLoaded s \<and>
          script_runs (trace (snd (initializePyodide env s)))
            = script_runs (trace s) @ [InstallSupport, InstallPyPI] \<and>
          (Warn, ''Could not install from PyPI, trying to load Python files directly:'', Some e2)
            \<in> set (console (trace (snd (initializePyodide env s))))"
      for e2
      using index_fails [of e2] by blast
    show "packageUrl env = Some url \<and> micropip_install env url = None \<longrightarrow>
          fst (initializePyodide env s) = Inr h \<and>
          pythonModulesLoaded (snd (initializePyodide env s)) \<and>
          script_runs (trace (snd (initializePyodide env s)))
            = script_runs (trace s) @ [InstallSupport, InstallWheel url]"
      for url
      using wheel [of url] by blast
    show "packageUrl env = Some url \<and> micropip_install env url = Some e1 \<and>
          micropip_install env ''esp-matter-dm-validator'' = None \<longrightarrow>
          (\<exists>after. script_runs (trace (snd (initializePyodide env s)))
             = script_runs (trace s) @ [InstallSupport, InstallWheel url, InstallPyPI] @ after)"
      for url e1
      using index_after_wheel [of url e1] by blast
    show "packageUrl env = None \<and> micropip_install env ''esp-matter-dm-validator'' = None \<and>
          make_data_dir env = None \<and> patch_loader env = None \<longrightarrow>
          fst (initializePyodide env s) = Inr h \<and>
          pythonModulesLoaded (snd (initializePyodide env s)) \<and>
          script_runs (trace (snd (initializePyodide env s)))
            = script_runs (trace s) @ [InstallSupport, InstallPyPI, MakeDataDir, PatchLoader]"
      using index_only by blast
    show "packageUrl env = Some url \<and> micropip_install env url = Some e1 \<and>
          micropip_install env ''esp-matter-dm-validator'' = None \<and>
          make_data_dir env = None \<and> patch_loader env = None \<longrightarrow>
          fst (initializePyodide env s) = Inr h \<and>
          pythonModulesLoaded (snd (initializePyodide env s)) \<and>
          script_runs (trace (snd (initializePyodide env s)))
            = script_runs (trace s) @
              [InstallSupport, InstallWheel url, InstallPyPI, MakeDataDir, PatchLoader]"
      for url e1
      using index_second [of url e1] by blast
    show "(\<exists>h'. fst (initializePyodide env s) = Inr h') \<longrightarrow>
          (\<exists>url. packageUrl env = Some url \<and> micropip_install env url = None) \<or>
          micropip_install env ''esp-matter-dm-validator'' = None"
      using installed by auto
  qed
qed

theorem package_install_strategies_witness:
  "pyodide initial_state = None \<and>
   loadPyodide env_wheel_index_down = Inr 1 \<and> install_support env_wheel_index_down = None \<and>
   packageUrl env_wheel_index_down = Some ''https://example.org/dmv_tool.whl'' \<and>
   micropip_install env_wheel_index_down ''https://example.org/dmv_tool.whl''
     = Some (Error ''no wheel found'') \<and>
   micropip_install env_wheel_index_down ''esp-matter-dm-validator'' = Some (Error ''no wheel found'') \<and>
   fst (initializePyodide env_wheel_index_down initial_state) = Inl package_not_available \<and>
   \<not> pythonModulesLoaded (snd (initializePyodide env_wheel_index_down initial_state)) \<and>
   script_runs (trace (snd (initializePyodide env_wheel_index_down initial_state)))
     = [InstallSupport, InstallWheel ''https://example.org/dmv_tool.whl'', InstallPyPI] \<and>
   loadPyodide env_index_down = Inr 1 \<and> install_support env_index_down = None \<and>
   packageUrl env_index_down = None \<and>
   micropip_install env_index_down ''esp-matter-dm-validator'' = Some (Error ''no wheel found'') \<and>
   fst (initializePyodide env_index_down initial_state) = Inl package_not_available \<and>
   script_runs (trace (snd (initializePyodide env_index_down initial_state)))
     = [InstallSupport, InstallPyPI] \<and>
   loadPyodide env_wheel = Inr 1 \<and> install_support env_wheel = None \<and>
   packageUrl env_wheel = Some ''https://example.org/dmv_tool.whl'' \<and>
   micropip_install env_wheel ''https://example.org/dmv_tool.whl'' = None \<and>
   fst (initializePyodide env_wheel initial_state) = Inr 1 \<and>
   script_runs (trace (snd (initializePyodide env_wheel initial_state)))
     = [InstallSupport, InstallWheel ''https://example.org/dmv_tool.whl''] \<and>
   loadPyodide sample_env = Inr 1 \<and> install_support sample_env = None \<and>
   packageUrl sample_env = None \<and>
   micropip_install sample_env ''esp-matter-dm-validator'' = None \<and>
   make_data_dir sample_env = None \<and> patch_loader sample_env = None \<and>
   fst (initializePyodide sample_env initial_state) = Inr 1 \<and>
   pythonModulesLoaded (snd (initializePyodide sample_env initial_state)) \<and>
   script_runs (trace (snd (initializePyodide sample_env initial_state)))
     = [InstallSupport, InstallPyPI, MakeDataDir, PatchLoader]"
proof -
  have start: "pyodide initial_state = None" "\<not> pythonModulesLoaded initial_state"
    "script_runs (trace initial_state) = []"
    by (simp_all add: initial_state_def)
  have run1: "loadPyodide env_wheel_index_down = Inr 1" "install_support env_wheel_index_down = None"
    by (simp_all add: env_defs install_support_def)
  have h1: "packageUrl env_wheel_index_down = Some ''https://example.org/dmv_tool.whl'' \<and>
            micropip_install env_wheel_index_down ''https://example.org/dmv_tool.whl''
              = Some (Error ''no wheel found'') \<and>
            micropip_install env_wheel_index_down ''esp-matter-dm-validator''
              = Some (Error ''no wheel found'')"
    by (simp add: env_defs packageUrl_def)
  have run2: "loadPyodide env_index_down = Inr 1" "install_support env_index_down = None"
    by (simp_all add: env_defs install_support_def)
  have h2: "packageUrl env_index_down = None \<and>
            micropip_install env_index_down ''esp-matter-dm-validator'' = Some (Error ''no wheel found'')"
    by (simp add: env_defs packageUrl_def)
  have run3: "loadPyodide env_wheel = Inr 1" "install_support env_wheel = None"
    by (simp_all add: env_defs install_support_def)
  have h3: "packageUrl env_wheel = Some ''https://example.org/dmv_tool.whl'' \<and>
            micropip_install env_wheel ''https://example.org/dmv_tool.whl'' = None"
    by (simp add: env_defs packageUrl_def)
  have run4: "loadPyodide sample_env = Inr 1" "install_support sample_env = None"
    by (simp_all add: env_defs install_support_def)
  have h4: "packageUrl sample_env = None \<and>
            micropip_install sample_env ''esp-matter-dm-validator'' = None \<and>
            make_data_dir sample_env = None \<and> patch_loader sample_env = None"
    by (simp add: env_defs packageUrl_def)
  from package_install_strategies [OF start(1) run1] h1
  have r1: "fst (initializePyodide env_wheel_index_down initial_state) = Inl package_not_available \<and>
            pythonModulesLoaded (snd (initializePyodide env_wheel_index_down initial_state))
              = pythonModulesLoaded initial_state \<and>
            script_runs (trace (snd (initializePyodide env_wheel_index_down initial_state)))
              = script_runs (trace initial_state) @
                [InstallSupport, InstallWheel ''https://example.org/dmv_tool.whl'', InstallPyPI]"
    by blast
  from package_install_strategies [OF start(1) run2] h2
  have r2: "fst (initializePyodide env_index_down initial_state) = Inl package_not_available \<and>
            script_runs (trace (snd (initializePyodide env_index_down initial_state)))
              = script_runs (trace initial_state) @ [InstallSupport, InstallPyPI]"
    by blast
  from package_install_strategies [OF start(1) run3] h3
  have r3: "fst (initializePyodide env_wheel initial_state) = Inr 1 \<and>
            script_runs (trace (snd (initializePyodide env_wheel initial_state)))
              = script_runs (trace initial_state) @
                [InstallSupport, InstallWheel ''https://example.org/dmv_tool.whl'']"
    by blast
  from package_install_strategies [OF start(1) run4] h4
  have r4: "fst (initializePyodide sample_env initial_state) = Inr 1 \<and>
            pythonModulesLoaded (snd (initializePyodide sample_env initial_state)) \<and>
            script_runs (trace (snd (initializePyodide sample_env initial_state)))
              = script_runs (trace initial_state) @
                [InstallSupport, InstallPyPI, MakeDataDir, PatchLoader]"
    by blast
  from start run1 h1 r1 run2 h2 r2 run3 h3 r3 run4 h4 r4 show ?thesis by simp
qed

text \<open>
  Claim C4 as stated fails in one point: the error the initialization fails with is not the
  triggering one. With no URL configured and the index install rejected with "no wheel
  found", the catch block of lines 71--78 logs that error and throws a new one with a fixed
  message, and this fixed error is what the module load is rejected with.
\<close>

theorem package_install_error_counterexample:
  "packageUrl env_index_down = None \<and>
   micropip_install env_index_down ''esp-matter-dm-validator'' = Some (Error ''no wheel found'') \<and>
   readinessState (module_load env_index_down) =
     Failed (Error ''Python package not available. Please configure DMV_PACKAGE_URL or ensure package is installable.'') \<and>
   readinessState (module_load env_index_down) \<noteq> Failed (Error ''no wheel found'') \<and>
   console (trace (module_load env_index_down)) =
     [(Log, ''Loading Pyodide...'', None),
      (Log, ''Pyodide loaded, installing packages...'', None),
      (Log, ''Loading dmv_tool package...'', None),
      (Warn, ''Could not install from PyPI, trying to load Python files directly:'',
         Some (Error ''no wheel found'')),
      (ErrorLevel, ''Error loading bundled modules:'',
         Some (Error ''Python package not available. Please configure DMV_PACKAGE_URL or ensure package is installable.'')),
      (ErrorLevel, ''Failed to initialize Pyodide:'',
         Some (Error ''Python package not available. Please configure DMV_PACKAGE_URL or ensure package is installable.''))]"
  by (simp add: init_defs env_defs readinessState_def Let_def)

section \<open>Provisioning the validation data\<close>

text \<open>
  One turn of the loop, by what the fetch answers: a page that is served and written, a fetch
  that is rejected, a body that cannot be read, and a response that is not ok. The last is
  skipped without a file and without a warning.
\<close>

lemma load_version_written:
  assumes "fetch env (fetch_url v) = Response True (Inr d)"
    and "FS_writeFile env (fs_path v) d = None"
  shows "load_version env v s =
           s\<lparr>fs := (fs s)(fs_path v \<mapsto> d),
             trace := trace s @ [Fetch (fetch_url v), WriteFile (fs_path v) d]\<rparr>"
  using assms by (simp add: load_version_def emit_def Let_def)

lemma load_version_rejected:
  assumes "fetch env (fetch_url v) = FetchRejected e"
  shows "load_version env v s =
           s\<lparr>trace := trace s @
             [Fetch (fetch_url v),
              Console Warn (''Could not load validation data for version '' @ v @ '':'') (Some e)]\<rparr>"
  using assms by (simp add: load_version_def warn_version_def emit_def Let_def)

lemma load_version_unreadable:
  assumes "fetch env (fetch_url v) = Response True (Inl e)"
  shows "load_version env v s =
           s\<lparr>trace := trace s @
             [Fetch (fetch_url v),
              Console Warn (''Could not load validation data for version '' @ v @ '':'') (Some e)]\<rparr>"
  using assms by (simp add: load_version_def warn_version_def emit_def Let_def)

lemma load_version_not_ok:
  assumes "fetch env (fetch_url v) = Response False body"
  shows "load_version env v s = s\<lparr>trace := trace s @ [Fetch (fetch_url v)]\<rparr>"
  using assms by (simp add: load_version_def emit_def Let_def)

text \<open>
  The loop over any list of versions, when the turn of one version \<open>v0\<close> only adds the events
  \<open>skipped\<close> to the trace and every other version's page is served and written.
\<close>

lemma load_validation_data_one_skipped:
  assumes skip: "\<And>s. load_version env v0 s = s\<lparr>trace := trace s @ skipped\<rparr>"
    and served: "\<forall>v \<in> set vs. v \<noteq> v0 \<longrightarrow>
           fetch env (fetch_url v) = Response True (Inr (doc v)) \<and>
           FS_writeFile env (fs_path v) (doc v) = None"
  shows "load_validation_data env vs s =
     s\<lparr>fs := fold (\<lambda>v m. if v = v0 then m else m(fs_path v \<mapsto> doc v)) vs (fs s),
       trace := trace s @
         concat (map (\<lambda>v. if v = v0 then skipped
                           else [Fetch (fetch_url v), WriteFile (fs_path v) (doc v)]) vs)\<rparr>"
  using served
proof (induction vs arbitrary: s)
  case Nil
  show ?case by simp
next
  case (Cons v vs)
  show ?case
  proof (cases "v = v0")
    case True
    with Cons show ?thesis by (simp add: skip)
  next
    case False
    with Cons.prems have "load_version env v s =
        s\<lparr>fs := (fs s)(fs_path v \<mapsto> doc v),
          trace := trace s @ [Fetch (fetch_url v), WriteFile (fs_path v) (doc v)]\<rparr>"
      by (intro load_version_written) simp_all
    with Cons False show ?thesis by simp
  qed
qed

lemma fs_path_inj: "(fs_path v = fs_path w) = (v = w)"
  by (simp add: fs_path_def)

lemma provisioned_lookup:
  "fold (\<lambda>v m. if v = v0 then m else m(fs_path v \<mapsto> doc v)) vs m (fs_path w) =
     (if w \<in> set vs \<and> w \<noteq> v0 then Some (doc w) else m (fs_path w))"
  by (induction vs arbitrary: m) (auto simp: fs_path_inj)

lemma provisioned_dom:
  "dom (fold (\<lambda>v m. if v = v0 then m else m(fs_path v \<mapsto> doc v)) vs m) =
     dom m \<union> fs_path ` (set vs - {v0})"
  by (induction vs arbitrary: m) auto

lemma provisioned_writes:
  assumes "writes skipped = []"
  shows "writes (concat (map (\<lambda>v. if v = v0 then skipped
                                   else [Fetch (fetch_url v), WriteFile (fs_path v) (doc v)]) vs))
           = map (\<lambda>v. (fs_path v, doc v)) (filter (\<lambda>v. v \<noteq> v0) vs)"
  using assms by (induction vs) auto

text \<open>
  Claim C5, as the code has it. The module is loaded in an environment where the runtime, the
  support script, the index install, the data directory and the patch all succeed (and the
  wheel, if a URL is configured, does not install). The fetch for one version \<open>v0\<close> of the
  fixed set fails: it is rejected, or the body of its response cannot be read, or its
  response is not ok. Every other version's page is served and written. Then the lifecycle is
  Ready and the flag true; every version was fetched; the files written are those of the
  other versions, in order, each with its page's text; the runtime's file system holds
  exactly these files; when the fetch was rejected or its body could not be read the error
  was logged as a warning for \<open>v0\<close>, and when the response was not ok no such warning was
  logged for any version.
\<close>

theorem provisioning_skips_failed_fetch:
  assumes "loadPyodide env = Inr h" and "install_support env = None"
    and "case packageUrl env of None \<Rightarrow> True | Some url \<Rightarrow> micropip_install env url \<noteq> None"
    and "micropip_install env ''esp-matter-dm-validator'' = None"
    and "make_data_dir env = None" and "patch_loader env = None"
    and "v0 \<in> set validationDataVersions"
    and "fetch env (fetch_url v0) = FetchRejected e \<or>
         fetch env (fetch_url v0) = Response True (Inl e) \<or>
         fetch env (fetch_url v0) = Response False body"
    and "\<forall>v \<in> set validationDataVersions. v \<noteq> v0 \<longrightarrow>
           fetch env (fetch_url v) = Response True (Inr (doc v)) \<and>
           FS_writeFile env (fs_path v) (doc v) = None"
  shows "readinessState (module_load env) = Ready h \<and>
         pythonModulesLoaded (module_load env) \<and>
         fetches (trace (module_load env)) = map fetch_url validationDataVersions \<and>
         writes (trace (module_load env)) =
           map (\<lambda>v. (fs_path v, doc v)) (filter (\<lambda>v. v \<noteq> v0) validationDataVersions) \<and>
         dom (fs (module_load env)) = fs_path ` (set validationDataVersions - {v0}) \<and>
         (\<forall>v \<in> set validationDataVersions - {v0}.
            fs (module_load env) (fs_path v) = Some (doc v)) \<and>
         (fetch env (fetch_url v0) \<noteq> Response False body \<longrightarrow>
            Console Warn (''Could not load validation data for version '' @ v0 @ '':'') (Some e)
              \<in> set (trace (module_load env))) \<and>
         (fetch env (fetch_url v0) = Response False body \<longrightarrow>
            (\<forall>v err. Console Warn (''Could not load validation data for version '' @ v @ '':'') err
               \<notin> set (trace (module_load env))))"
proof -
  define skipped where "skipped =
    (if fetch env (fetch_url v0) = Response False body then [Fetch (fetch_url v0)]
     else [Fetch (fetch_url v0),
           Console Warn (''Could not load validation data for version '' @ v0 @ '':'') (Some e)])"
  have skip: "load_version env v0 s = s\<lparr>trace := trace s @ skipped\<rparr>" for s
    using assms(8)
    by (auto simp: skipped_def load_version_rejected load_version_unreadable load_version_not_ok)
  have no_write: "writes skipped = []"
    by (simp add: skipped_def)
  note loop = load_validation_data_one_skipped [of env v0 skipped, OF skip assms(9)]
  have bundled: "loadBundledModules env s =
      (Inr (), emit (Console Log ''Bundled modules and data loaded'' None)
         ((emit (RunPython PatchLoader)
            (load_validation_data env validationDataVersions
               (emit (RunPython MakeDataDir)
                  (emit (Console Log ''Python modules installed from PyPI'' None)
                     ((emit (RunPythonAsync InstallPyPI) s)\<lparr>pythonModulesLoaded := True\<rparr>)))))
          \<lparr>pythonModulesLoaded := True\<rparr>))" for s
    using assms(4-6) by (simp add: loadBundledModules_def loadBundledModules_try_def Let_def)
  have start: "pyodide initial_state = None" "initializationPromise initial_state = None"
    "fs initial_state = Map.empty" "trace initial_state = []"
    by (simp_all add: initial_state_def)
  have outcome: "fst (initializePyodide env initial_state) = Inr h"
    using assms(3-6)
    by (simp add: initializePyodide_run(2) [OF start(1) assms(1,2)] load_package_fst
          loadBundledModules_fst split: option.splits)
  have final: "module_load env =
      emit (Console Log ''Pyodide bridge ready'' None)
        ((snd (initializePyodide env initial_state))\<lparr>initializationPromise := Some (Inr h)\<rparr>)"
    using outcome
    by (simp add: module_load_def getPyodide_def start case_prod_beta)
  have Ready: "readinessState (module_load env) = Ready h"
    by (simp add: final readinessState_def)
  have loaded: "pythonModulesLoaded (module_load env)"
    using assms(1-4)
    by (simp add: final initializePyodide_flag [OF start(1)] split: option.splits)
  have fetched: "fetches (trace (module_load env)) = map fetch_url validationDataVersions"
    using assms(3-5)
    by (simp add: final initializePyodide_fetches [OF start(1) assms(1,2)] start)
  have run: "snd (initializePyodide env initial_state) =
      snd (loadBundledModules env
        (case packageUrl env of
           None \<Rightarrow>
             emit (Console Log ''Loading dmv_tool package...'' None)
               (emit (RunPythonAsync InstallSupport)
                 (emit (Console Log ''Pyodide loaded, installing packages...'' None)
                   ((emit LoadPyodide (emit (Console Log ''Loading Pyodide...'' None) initial_state))
                      \<lparr>pyodide := Some h\<rparr>)))
         | Some url \<Rightarrow>
             emit (Console Warn ''Failed to load from wheel, trying bundled modules:''
                     (micropip_install env url))
               (emit (RunPythonAsync (InstallWheel url))
                 (emit (Console Log ''Loading dmv_tool package...'' None)
                   (emit (RunPythonAsync InstallSupport)
                     (emit (Console Log ''Pyodide loaded, installing packages...'' None)
                       ((emit LoadPyodide (emit (Console Log ''Loading Pyodide...'' None) initial_state))
                          \<lparr>pyodide := Some h\<rparr>)))))))"
    using assms(3)
    by (auto simp: initializePyodide_run(1) [OF start(1) assms(1,2)] load_package_def Let_def
          split: option.splits)
  have files: "fs (module_load env) =
      fold (\<lambda>v m. if v = v0 then m else m(fs_path v \<mapsto> doc v)) validationDataVersions Map.empty"
    by (simp add: final run bundled loop start split: option.splits)
  have written: "writes (trace (module_load env)) =
      map (\<lambda>v. (fs_path v, doc v)) (filter (\<lambda>v. v \<noteq> v0) validationDataVersions)"
    by (simp add: final run bundled loop start provisioned_writes [OF no_write]
          split: option.splits)
  have domain: "dom (fs (module_load env)) = fs_path ` (set validationDataVersions - {v0})"
    by (simp add: files provisioned_dom)
  have contents: "\<forall>v \<in> set validationDataVersions - {v0}.
      fs (module_load env) (fs_path v) = Some (doc v)"
    by (simp add: files provisioned_lookup)
  have warned: "Console Warn (''Could not load validation data for version '' @ v0 @ '':'') (Some e)
      \<in> set (trace (module_load env))"
    if "fetch env (fetch_url v0) \<noteq> Response False body"
    using that assms(7)
    by (auto simp: final run bundled loop start skipped_def split: option.splits)
  have silent: "Console Warn (''Could not load validation data for version '' @ v @ '':'') err
      \<notin> set (trace (module_load env))"
    if "fetch env (fetch_url v0) = Response False body" for v err
    using that
    by (auto simp: final run bundled loop start skipped_def split: option.splits if_splits)
  from Ready loaded fetched written domain contents warned silent show ?thesis by blast
qed

theorem provisioning_skips_failed_fetch_witness:
  "loadPyodide env_fetch_fails = Inr 1 \<and> install_support env_fetch_fails = None \<and>
   packageUrl env_fetch_fails = None \<and>
   micropip_install env_fetch_fails ''esp-matter-dm-validator'' = None \<and>
   make_data_dir env_fetch_fails = None \<and> patch_loader env_fetch_fails = None \<and>
   ''1.4.1'' \<in> set validationDataVersions \<and>
   fetch env_fetch_fails (fetch_url ''1.4.1'') = FetchRejected (Error ''Failed to fetch'') \<and>
   map (\<lambda>v. fetch env_fetch_fails (fetch_url v)) [''1.2'', ''1.3'', ''1.4'', ''1.4.2'', ''1.5'', ''master'']
     = map (\<lambda>v. Response True (Inr (fetch_url v))) [''1.2'', ''1.3'', ''1.4'', ''1.4.2'', ''1.5'', ''master''] \<and>
   readinessState (module_load env_fetch_fails) = Ready 1 \<and>
   pythonModulesLoaded (module_load env_fetch_fails) \<and>
   writes (trace (module_load env_fetch_fails)) =
     map (\<lambda>v. (fs_path v, fetch_url v)) [''1.2'', ''1.3'', ''1.4'', ''1.4.2'', ''1.5'', ''master''] \<and>
   dom (fs (module_load env_fetch_fails)) = fs_path ` (set validationDataVersions - {''1.4.1''}) \<and>
   fs (module_load env_fetch_fails) (fs_path ''1.4.1'') = None \<and>
   fs (module_load env_fetch_fails) (fs_path ''1.4.2'') = Some (fetch_url ''1.4.2'') \<and>
   Console Warn ''Could not load validation data for version 1.4.1:'' (Some (Error ''Failed to fetch''))
     \<in> set (trace (module_load env_fetch_fails)) \<and>
   fetch env_not_found (fetch_url ''1.4.1'') = Response False (Inr ''Not Found'') \<and>
   readinessState (module_load env_not_found) = Ready 1 \<and>
   dom (fs (module_load env_not_found)) = fs_path ` (set validationDataVersions - {''1.4.1''}) \<and>
   Console Warn ''Could not load validation data for version 1.4.1:'' (Some (Error ''Failed to fetch''))
     \<notin> set (trace (module_load env_not_found))"
proof -
  have run: "loadPyodide env_fetch_fails = Inr 1" "install_support env_fetch_fails = None"
    "case packageUrl env_fetch_fails of None \<Rightarrow> True
     | Some url \<Rightarrow> micropip_install env_fetch_fails url \<noteq> None"
    "micropip_install env_fetch_fails ''esp-matter-dm-validator'' = None"
    "make_data_dir env_fetch_fails = None" "patch_loader env_fetch_fails = None"
    and no_url: "packageUrl env_fetch_fails = None"
    by (simp_all add: env_defs install_support_def packageUrl_def)
  have run': "loadPyodide env_not_found = Inr 1" "install_support env_not_found = None"
    "case packageUrl env_not_found of None \<Rightarrow> True
     | Some url \<Rightarrow> micropip_install env_not_found url \<noteq> None"
    "micropip_install env_not_found ''esp-matter-dm-validator'' = None"
    "make_data_dir env_not_found = None" "patch_loader env_not_found = None"
    by (simp_all add: env_defs install_support_def packageUrl_def)
  have member: "''1.4.1'' \<in> set validationDataVersions"
    by (simp add: validationDataVersions_def)
  have rejected: "fetch env_fetch_fails (fetch_url ''1.4.1'') = FetchRejected (Error ''Failed to fetch'')"
    by (simp add: env_defs fetch_url_def)
  have not_ok: "fetch env_not_found (fetch_url ''1.4.1'') = Response False (Inr ''Not Found'')"
    by (simp add: env_defs fetch_url_def)
  have served: "\<forall>v \<in> set validationDataVersions. v \<noteq> ''1.4.1'' \<longrightarrow>
      fetch env_fetch_fails (fetch_url v) = Response True (Inr (fetch_url v)) \<and>
      FS_writeFile env_fetch_fails (fs_path v) (fetch_url v) = None"
    by (simp add: env_defs fetch_url_def validationDataVersions_def)
  have served': "\<forall>v \<in> set validationDataVersions. v \<noteq> ''1.4.1'' \<longrightarrow>
      fetch env_not_found (fetch_url v) = Response True (Inr (fetch_url v)) \<and>
      FS_writeFile env_not_found (fs_path v) (fetch_url v) = None"
    by (simp add: env_defs fetch_url_def validationDataVersions_def)
  have served_list:
    "map (\<lambda>v. fetch env_fetch_fails (fetch_url v)) [''1.2'', ''1.3'', ''1.4'', ''1.4.2'', ''1.5'', ''master'']
       = map (\<lambda>v. Response True (Inr (fetch_url v))) [''1.2'', ''1.3'', ''1.4'', ''1.4.2'', ''1.5'', ''master'']"
    by (simp add: env_defs fetch_url_def)
  have kind: "fetch env_fetch_fails (fetch_url ''1.4.1'') = FetchRejected (Error ''Failed to fetch'') \<or>
      fetch env_fetch_fails (fetch_url ''1.4.1'') = Response True (Inl (Error ''Failed to fetch'')) \<or>
      fetch env_fetch_fails (fetch_url ''1.4.1'') = Response False (Inr ''Not Found'')"
    using rejected by simp
  have kind': "fetch env_not_found (fetch_url ''1.4.1'') = FetchRejected (Error ''Failed to fetch'') \<or>
      fetch env_not_found (fetch_url ''1.4.1'') = Response True (Inl (Error ''Failed to fetch'')) \<or>
      fetch env_not_found (fetch_url ''1.4.1'') = Response False (Inr ''Not Found'')"
    using not_ok by simp
  note result = provisioning_skips_failed_fetch [OF run member kind served]
  note result' = provisioning_skips_failed_fetch [OF run' member kind' served']
  from result have ready: "readinessState (module_load env_fetch_fails) = Ready 1"
      and loaded: "pythonModulesLoaded (module_load env_fetch_fails)"
      and written: "writes (trace (module_load env_fetch_fails)) =
        map (\<lambda>v. (fs_path v, fetch_url v))
          (filter (\<lambda>v. v \<noteq> ''1.4.1'') validationDataVersions)"
      and domain: "dom (fs (module_load env_fetch_fails))
        = fs_path ` (set validationDataVersions - {''1.4.1''})"
      and contents: "\<forall>v \<in> set validationDataVersions - {''1.4.1''}.
        fs (module_load env_fetch_fails) (fs_path v) = Some (fetch_url v)"
    by simp_all
  from written have written_list: "writes (trace (module_load env_fetch_fails)) =
      map (\<lambda>v. (fs_path v, fetch_url v)) [''1.2'', ''1.3'', ''1.4'', ''1.4.2'', ''1.5'', ''master'']"
    by (simp add: validationDataVersions_def)
  from result rejected
  have warned: "Console Warn ''Could not load validation data for version 1.4.1:''
      (Some (Error ''Failed to fetch'')) \<in> set (trace (module_load env_fetch_fails))"
    by simp
  have "fs_path ''1.4.1'' \<notin> fs_path ` (set validationDataVersions - {''1.4.1''})"
    by (auto simp: fs_path_inj)
  with domain have "fs_path ''1.4.1'' \<notin> dom (fs (module_load env_fetch_fails))"
    by (rule ssubst)
  then have missing: "fs (module_load env_fetch_fails) (fs_path ''1.4.1'') = None"
    by (meson domIff)
  from contents have kept: "fs (module_load env_fetch_fails) (fs_path ''1.4.2'') = Some (fetch_url ''1.4.2'')"
    by (simp add: validationDataVersions_def)
  from result' have ready': "readinessState (module_load env_not_found) = Ready 1"
      and domain': "dom (fs (module_load env_not_found))
        = fs_path ` (set validationDataVersions - {''1.4.1''})"
    by simp_all
  from result' not_ok
  have "Console Warn (''Could not load validation data for version '' @ ''1.4.1'' @ '':'')
      (Some (Error ''Failed to fetch'')) \<notin> set (trace (module_load env_not_found))"
    by blast
  then have silent: "Console Warn ''Could not load validation data for version 1.4.1:''
      (Some (Error ''Failed to fetch'')) \<notin> set (trace (module_load env_not_found))"
    by simp
  show ?thesis
    by (intro conjI)
       (fact run no_url member rejected served_list ready loaded written_list domain missing kept
          warned not_ok ready' domain' silent)+
qed

text \<open>
  Claim C5 as stated fails in one point: a fetch failure need not be logged. When the page of
  version 1.4.1 is answered with a status that is not ok, the guard of line 97 skips the
  version, the catch block of lines 101--103 is not entered, and the console shows the six
  log lines of a successful start and no warning; the lifecycle is Ready and the file of
  version 1.4.1 is absent.
\<close>

theorem provisioning_not_logged_counterexample:
  "fetch env_not_found (fetch_url ''1.4.1'') = Response False (Inr ''Not Found'') \<and>
   readinessState (module_load env_not_found) = Ready 1 \<and>
   fs (module_load env_not_found) (fs_path ''1.4.1'') = None \<and>
   fs (module_load env_not_found) (fs_path ''1.4.2'') = Some ''data/validation_data_1.4.2.json'' \<and>
   console (trace (module_load env_not_found)) =
     [(Log, ''Loading Pyodide...'', None),
      (Log, ''Pyodide loaded, installing packages...'', None),
      (Log, ''Loading dmv_tool package...'', None),
      (Log, ''Python modules installed from PyPI'', None),
      (Log, ''Bundled modules and data loaded'', None),
      (Log, ''Pyodide bridge ready'', None)]"
  by (simp add: init_defs env_defs readinessState_def Let_def)

section \<open>Escaping the log text\<close>

lemma replace_backtick_none:
  "backtick \<notin> set cs \<Longrightarrow> replace_backtick cs = cs"
  by (induction cs) auto

lemma replace_dollar_brace_none:
  "dollar \<notin> set cs \<Longrightarrow> replace_dollar_brace cs = cs"
  by (induction cs rule: replace_dollar_brace.induct) auto

lemma set_replace_backslash:
  "set (replace_backslash cs) = set cs"
  by (induction cs) auto

lemma py_triple_quoted_Cons:
  assumes "c \<noteq> backslash" and "c \<noteq> dquote" and "c \<noteq> CHR 0x0A" and "c \<noteq> CHR 0x0D"
    and "c \<noteq> CHR 0x00"
  shows "py_triple_quoted (c # cs) = map_option (\<lambda>r. c # r) (py_triple_quoted cs)"
  using assms by (cases cs) simp_all

lemma py_triple_quoted_backslash:
  "py_triple_quoted (backslash # backslash # cs) = map_option (\<lambda>r. backslash # r) (py_triple_quoted cs)"
  by (cases "py_triple_quoted cs") (simp_all add: py_escape_def)

text \<open>
  Where the escaping does its work: a text of one line with backslashes, but with no
  backtick, dollar sign, double quote, line feed, carriage return or NUL, is read back by
  Python as it was.
\<close>

lemma escape_round_trip_plain:
  assumes "backtick \<notin> set logData" and "dollar \<notin> set logData" and "dquote \<notin> set logData"
    and "CHR 0x0A \<notin> set logData" and "CHR 0x0D \<notin> set logData" and "CHR 0x00 \<notin> set logData"
  shows "py_triple_quoted (escapeLogData logData) = Some logData"
proof -
  have "escapeLogData logData = replace_backslash logData"
    using assms(1,2)
    by (simp add: escapeLogData_def replace_backtick_none replace_dollar_brace_none
          set_replace_backslash)
  moreover have "py_triple_quoted (replace_backslash logData) = Some logData"
    using assms(3-6)
  proof (induction logData)
    case Nil
    show ?case by simp
  next
    case (Cons c cs)
    then have rest: "py_triple_quoted (replace_backslash cs) = Some cs" by simp
    show ?case
    proof (cases "c = backslash")
      case True
      with rest show ?thesis by (simp add: py_escape_def)
    next
      case False
      moreover from Cons.prems
      have "c \<noteq> dquote" "c \<noteq> CHR 0x0A" "c \<noteq> CHR 0x0D" "c \<noteq> CHR 0x00"
        by auto
      ultimately show ?thesis
        using rest by (simp add: py_triple_quoted_Cons)
    qed
  qed
  ultimately show ?thesis by simp
qed

text \<open>
  Claim C6 at failing inputs. Python keeps the backslash of an escape sequence it does not
  know, and a backslash before a backtick or a dollar sign is such a sequence. A log text that
  is one backtick is escaped to backslash-backtick, the assignment script binds these two
  characters to \<open>log_data_str\<close>, and the delegate (which in \<open>sample_env\<close> hands its argument
  back) receives them; the text dollar-brace comes back with a backslash in front as well.
\<close>

theorem escaped_backtick_not_restored:
  "escapeLogData [backtick] = [backslash, backtick] \<and>
   py_triple_quoted (escapeLogData [backtick]) = Some [backslash, backtick] \<and>
   py_globals (snd (parseDatamodelLogs sample_env [backtick] (module_load sample_env)))
     ''log_data_str'' = Some [backslash, backtick] \<and>
   fst (parseDatamodelLogs sample_env [backtick] (module_load sample_env))
     = Inr (JSString [backslash, backtick]) \<and>
   escapeLogData [dollar, lbrace] = [backslash, dollar, lbrace] \<and>
   py_triple_quoted (escapeLogData [dollar, lbrace]) = Some [backslash, dollar, lbrace]"
proof -
  have escaped: "escapeLogData [backtick] = [backslash, backtick]"
    "escapeLogData [dollar, lbrace] = [backslash, dollar, lbrace]"
    by (simp_all add: escapeLogData_def)
  have read_back: "py_triple_quoted [backslash, backtick] = Some [backslash, backtick]"
    "py_triple_quoted [backslash, dollar, lbrace] = Some [backslash, dollar, lbrace]"
    by (simp_all add: py_escape_def)
  have ready: "ensurePyodideReady sample_env (module_load sample_env) = (Inr (), module_load sample_env)"
    by (rule ensure_ready_loaded [OF module_load_sample(1,2)])
  have call: "parseDatamodelLogs_try sample_env [backtick] (module_load sample_env) =
      (Inr (JSString [backslash, backtick]),
       emit (RunPythonAsync CallParse)
         ((emit (RunPython (AssignLogData [backslash, backtick])) (module_load sample_env))
            \<lparr>py_globals := (py_globals (module_load sample_env))
                 (''log_data_str'' \<mapsto> [backslash, backtick])\<rparr>))"
    by (simp add: parseDatamodelLogs_try_def escaped assign_log_data_def py_escape_def
          parse_script_def Let_def sample_env_def)
  show ?thesis
    by (simp add: escaped py_escape_def parseDatamodelLogs_def ready call)
qed

section \<open>The failure contracts of the four wrappers\<close>

text \<open>
  Claim C7, as the code has it. Once the runtime handle is set and the modules are loaded,
  \<open>getSupportedVersions\<close> never throws: it returns a value, and whenever anything inside its
  \<open>try\<close> block fails (the import, the delegate constant, \<open>json.dumps\<close>, or \<open>JSON.parse\<close> of
  the result) that value is exactly the hardcoded fallback list.
\<close>

theorem getSupportedVersions_fallback:
  assumes "pyodide s = Some h" and "pythonModulesLoaded s"
  shows "(\<exists>v. fst (getSupportedVersions env s) = Inr v) \<and>
         (\<forall>e. versions_script env = Inl e \<longrightarrow>
              fst (getSupportedVersions env s) = Inr fallback_versions) \<and>
         (\<forall>e text. versions_script env = Inr text \<and> JSON_parse env text = Inl e \<longrightarrow>
              fst (getSupportedVersions env s) = Inr fallback_versions) \<and>
         fallback_versions =
           JSArray (map JSString [''1.2'', ''1.3'', ''1.4'', ''1.4.1'', ''1.4.2'', ''1.5'', ''master''])"
  using assms
  by (auto simp: getSupportedVersions_def getSupportedVersions_try_def ensure_ready_loaded
        fallback_versions_def Let_def split: sum.splits)

theorem getSupportedVersions_fallback_witness:
  "pyodide (module_load sample_env) = Some 1 \<and> pythonModulesLoaded (module_load sample_env) \<and>
   versions_script env_delegates_fail = Inl (Error ''ImportError: configs'') \<and>
   fst (getSupportedVersions env_delegates_fail (module_load sample_env)) = Inr fallback_versions \<and>
   versions_script (sample_env\<lparr>JSON_parse := (\<lambda>text. Inl (Error ''SyntaxError''))\<rparr>) = Inr ''[]'' \<and>
   JSON_parse (sample_env\<lparr>JSON_parse := (\<lambda>text. Inl (Error ''SyntaxError''))\<rparr>) ''[]''
     = Inl (Error ''SyntaxError'') \<and>
   fst (getSupportedVersions (sample_env\<lparr>JSON_parse := (\<lambda>text. Inl (Error ''SyntaxError''))\<rparr>)
          (module_load sample_env)) = Inr fallback_versions"
proof -
  let ?env = "sample_env\<lparr>JSON_parse := (\<lambda>text. Inl (Error ''SyntaxError''))\<rparr>"
  have h1: "versions_script env_delegates_fail = Inl (Error ''ImportError: configs'')"
    by (simp add: versions_script_def env_defs)
  have h2: "versions_script ?env = Inr ''[]'' \<and> JSON_parse ?env ''[]'' = Inl (Error ''SyntaxError'')"
    by (simp add: versions_script_def env_defs)
  from getSupportedVersions_fallback [OF module_load_sample(1,2), of env_delegates_fail] h1
  have r1: "fst (getSupportedVersions env_delegates_fail (module_load sample_env)) = Inr fallback_versions"
    by blast
  from getSupportedVersions_fallback [OF module_load_sample(1,2), of ?env] h2
  have r2: "fst (getSupportedVersions ?env (module_load sample_env)) = Inr fallback_versions"
    by blast
  from module_load_sample(1,2) h1 h2 r1 r2 show ?thesis by blast
qed

text \<open>
  Claim C7 as stated fails: \<open>ensurePyodideReady\<close> is awaited outside the \<open>try\<close> block, so
  when the package could not be installed at module load, \<open>getSupportedVersions\<close> throws
  "Python modules not loaded" and returns no list.
\<close>

theorem getSupportedVersions_throws_counterexample:
  "fst (getSupportedVersions env_index_down (module_load env_index_down)) = Inl modules_not_loaded"
  by (simp add: getSupportedVersions_def
        ensure_ready_not_loaded [OF module_load_index_down(1,2)])

text \<open>
  Claim C8. Once the runtime handle is set and the modules are loaded, \<open>detectSpecVersion\<close>
  never throws: it returns a value, and whenever \<open>JSON.stringify\<close> of the argument or the
  Python script (the import, \<open>json.loads\<close>, the delegate) raises, that value is null.
\<close>

theorem detectSpecVersion_soft_failure:
  assumes "pyodide s = Some h" and "pythonModulesLoaded s"
  shows "(\<exists>v. fst (detectSpecVersion env parsedData s) = Inr v) \<and>
         (\<forall>e. JSON_stringify env parsedData = Inl e \<longrightarrow>
              fst (detectSpecVersion env parsedData s) = Inr JSNull) \<and>
         (\<forall>e text. JSON_stringify env parsedData = Inr text \<and>
              detect_script env ((py_globals s)(''parsed_data_json'' \<mapsto> text)) = Inl e \<longrightarrow>
              fst (detectSpecVersion env parsedData s) = Inr JSNull) \<and>
         (\<forall>e text parsed_data. JSON_stringify env parsedData = Inr text \<and>
              import_module env ''validators.conformance_checker'' = None \<and>
              json_loads env text = Inr parsed_data \<and>
              detect_spec_version_from_parsed_data env parsed_data = Inl e \<longrightarrow>
              fst (detectSpecVersion env parsedData s) = Inr JSNull)"
proof -
  have body: "fst (detectSpecVersion env parsedData s) =
      (case JSON_stringify env parsedData of
         Inl e \<Rightarrow> Inr JSNull
       | Inr text \<Rightarrow>
           (case detect_script env ((py_globals s)(''parsed_data_json'' \<mapsto> text)) of
              Inl e \<Rightarrow> Inr JSNull
            | Inr result \<Rightarrow> Inr (JSString result)))"
    using assms
    by (simp add: detectSpecVersion_def ensure_ready_loaded detectSpecVersion_try_def Let_def
          split: sum.splits)
  have scr: "detect_script env ((py_globals s)(''parsed_data_json'' \<mapsto> jtext)) = Inl e"
    if "import_module env ''validators.conformance_checker'' = None"
      and "json_loads env jtext = Inr parsed_data"
      and "detect_spec_version_from_parsed_data env parsed_data = Inl e"
    for jtext parsed_data e
    using that by (simp add: detect_script_def)
  show ?thesis
    using scr by (auto simp: body split: sum.splits)
qed

theorem detectSpecVersion_soft_failure_witness:
  "pyodide (module_load sample_env) = Some 1 \<and> pythonModulesLoaded (module_load sample_env) \<and>
   JSON_stringify (sample_env\<lparr>JSON_stringify := (\<lambda>v. Inl (Error ''TypeError''))\<rparr>) JSNull
     = Inl (Error ''TypeError'') \<and>
   fst (detectSpecVersion (sample_env\<lparr>JSON_stringify := (\<lambda>v. Inl (Error ''TypeError''))\<rparr>) JSNull
          (module_load sample_env)) = Inr JSNull \<and>
   JSON_stringify env_delegates_fail JSNull = Inr ''{}'' \<and>
   import_module env_delegates_fail ''validators.conformance_checker'' = None \<and>
   json_loads env_delegates_fail ''{}'' = Inr ''{}'' \<and>
   detect_spec_version_from_parsed_data env_delegates_fail ''{}'' = Inl (Error ''KeyError: endpoints'') \<and>
   detect_script env_delegates_fail
     ((py_globals (module_load sample_env))(''parsed_data_json'' \<mapsto> ''{}''))
     = Inl (Error ''KeyError: endpoints'') \<and>
   fst (detectSpecVersion env_delegates_fail JSNull (module_load sample_env)) = Inr JSNull"
proof -
  let ?env = "sample_env\<lparr>JSON_stringify := (\<lambda>v. Inl (Error ''TypeError''))\<rparr>"
  have h1: "JSON_stringify ?env JSNull = Inl (Error ''TypeError'')"
    by (simp add: env_defs)
  have h2: "JSON_stringify env_delegates_fail JSNull = Inr ''{}'' \<and>
            import_module env_delegates_fail ''validators.conformance_checker'' = None \<and>
            json_loads env_delegates_fail ''{}'' = Inr ''{}'' \<and>
            detect_spec_version_from_parsed_data env_delegates_fail ''{}''
              = Inl (Error ''KeyError: endpoints'')"
    by (simp add: env_defs)
  have h3: "detect_script env_delegates_fail
              ((py_globals (module_load sample_env))(''parsed_data_json'' \<mapsto> ''{}''))
              = Inl (Error ''KeyError: endpoints'')"
    by (simp add: detect_script_def env_defs)
  from detectSpecVersion_soft_failure [OF module_load_sample(1,2), of ?env JSNull] h1
  have r1: "fst (detectSpecVersion ?env JSNull (module_load sample_env)) = Inr JSNull"
    by blast
  from detectSpecVersion_soft_failure [OF module_load_sample(1,2), of env_delegates_fail JSNull] h2
  have r2: "fst (detectSpecVersion env_delegates_fail JSNull (module_load sample_env)) = Inr JSNull"
    by blast
  from module_load_sample(1,2) h1 h2 h3 r1 r2 show ?thesis by blast
qed

text \<open>
  Claim C9. Once the runtime handle is set and the modules are loaded, a failure of the
  delegate makes \<open>parseDatamodelLogs\<close> and \<open>validateDeviceConformance\<close> throw an error whose
  message is a fixed prefix followed by the message of the delegate's error; the same holds
  for any other error raised inside their \<open>try\<close> blocks.
\<close>

theorem hard_failure_contract:
  assumes "pyodide s = Some h" and "pythonModulesLoaded s"
  shows "(\<forall>e v. assign_log_data env (escapeLogData logData) = Inr v \<and>
              import_module env ''parsers.wildcard_logs'' = None \<and>
              parse_datamodel_logs env v = Inl e \<longrightarrow>
              fst (parseDatamodelLogs env logData s)
                = Inl (Error (''Failed to parse logs: '' @ message e))) \<and>
         (\<forall>e text parsed_data. JSON_stringify env parsedData = Inr text \<and>
              import_module env ''validators.conformance_checker'' = None \<and>
              json_loads env text = Inr parsed_data \<and>
              validate_device_conformance env parsed_data specVersion = Inl e \<longrightarrow>
              fst (validateDeviceConformance env parsedData specVersion s)
                = Inl (Error (''Validation failed: '' @ message e))) \<and>
         (\<forall>e. fst (parseDatamodelLogs_try env logData s) = Inl e \<longrightarrow>
              fst (parseDatamodelLogs env logData s)
                = Inl (Error (''Failed to parse logs: '' @ message e))) \<and>
         (\<forall>e. fst (validateDeviceConformance_try env parsedData specVersion s) = Inl e \<longrightarrow>
              fst (validateDeviceConformance env parsedData specVersion s)
                = Inl (Error (''Validation failed: '' @ message e)))"
proof -
  have any_parse: "fst (parseDatamodelLogs env logData s)
                     = Inl (Error (''Failed to parse logs: '' @ message e))"
    if "fst (parseDatamodelLogs_try env logData s) = Inl e" for e
    using that assms
    by (simp add: parseDatamodelLogs_def ensure_ready_loaded case_prod_beta)
  have any_validate: "fst (validateDeviceConformance env parsedData specVersion s)
                        = Inl (Error (''Validation failed: '' @ message e))"
    if "fst (validateDeviceConformance_try env parsedData specVersion s) = Inl e" for e
    using that assms
    by (simp add: validateDeviceConformance_def ensure_ready_loaded case_prod_beta)
  have parse: "fst (parseDatamodelLogs env logData s)
                 = Inl (Error (''Failed to parse logs: '' @ message e))"
    if "assign_log_data env (escapeLogData logData) = Inr v"
      and "import_module env ''parsers.wildcard_logs'' = None"
      and "parse_datamodel_logs env v = Inl e"
    for e v
  proof -
    have "parse_script env ((py_globals s)(''log_data_str'' \<mapsto> v)) = Inl e"
      using that by (simp add: parse_script_def)
    with that assms show ?thesis
      by (simp add: parseDatamodelLogs_def parseDatamodelLogs_try_def ensure_ready_loaded Let_def)
  qed
  have validate: "fst (validateDeviceConformance env parsedData specVersion s)
                    = Inl (Error (''Validation failed: '' @ message e))"
    if "JSON_stringify env parsedData = Inr jtext"
      and "import_module env ''validators.conformance_checker'' = None"
      and "json_loads env jtext = Inr parsed_data"
      and "validate_device_conformance env parsed_data specVersion = Inl e"
    for e jtext parsed_data
  proof -
    have "validate_script env
            ((py_globals s)(''parsed_data_json'' \<mapsto> jtext, ''spec_version_str'' \<mapsto> specVersion))
            = Inl e"
      using that by (simp add: validate_script_def)
    with that assms show ?thesis
      by (simp add: validateDeviceConformance_def validateDeviceConformance_try_def
            ensure_ready_loaded Let_def)
  qed
  from parse validate any_parse any_validate show ?thesis by blast
qed

theorem hard_failure_contract_witness:
  "pyodide (module_load sample_env) = Some 1 \<and> pythonModulesLoaded (module_load sample_env) \<and>
   assign_log_data env_delegates_fail (escapeLogData ''x'') = Inr ''x'' \<and>
   import_module env_delegates_fail ''parsers.wildcard_logs'' = None \<and>
   parse_datamodel_logs env_delegates_fail ''x'' = Inl (Error ''ValueError: bad log'') \<and>
   fst (parseDatamodelLogs env_delegates_fail ''x'' (module_load sample_env))
     = Inl (Error ''Failed to parse logs: ValueError: bad log'') \<and>
   JSON_stringify env_delegates_fail JSNull = Inr ''{}'' \<and>
   import_module env_delegates_fail ''validators.conformance_checker'' = None \<and>
   json_loads env_delegates_fail ''{}'' = Inr ''{}'' \<and>
   validate_device_conformance env_delegates_fail ''{}'' ''1.4'' = Inl (Error ''KeyError: clusters'') \<and>
   fst (validateDeviceConformance env_delegates_fail JSNull ''1.4'' (module_load sample_env))
     = Inl (Error ''Validation failed: KeyError: clusters'')"
proof -
  have h1: "assign_log_data env_delegates_fail (escapeLogData ''x'') = Inr ''x'' \<and>
            import_module env_delegates_fail ''parsers.wildcard_logs'' = None \<and>
            parse_datamodel_logs env_delegates_fail ''x'' = Inl (Error ''ValueError: bad log'')"
    by (simp add: env_defs assign_log_data_def escapeLogData_def)
  have h2: "JSON_stringify env_delegates_fail JSNull = Inr ''{}'' \<and>
            import_module env_delegates_fail ''validators.conformance_checker'' = None \<and>
            json_loads env_delegates_fail ''{}'' = Inr ''{}'' \<and>
            validate_device_conformance env_delegates_fail ''{}'' ''1.4''
              = Inl (Error ''KeyError: clusters'')"
    by (simp add: env_defs)
  note inst = hard_failure_contract [OF module_load_sample(1,2), of env_delegates_fail "''x''" JSNull "''1.4''"]
  from inst h1
  have r1: "fst (parseDatamodelLogs env_delegates_fail ''x'' (module_load sample_env))
              = Inl (Error (''Failed to parse logs: '' @ message (Error ''ValueError: bad log'')))"
    by blast
  from inst h2
  have r2: "fst (validateDeviceConformance env_delegates_fail JSNull ''1.4'' (module_load sample_env))
              = Inl (Error (''Validation failed: '' @ message (Error ''KeyError: clusters'')))"
    by blast
  from module_load_sample(1,2) h1 h2 r1 r2 show ?thesis by simp
qed

text \<open>
  Claim C10. Once the runtime handle is set and the modules are loaded: when the delegate
  completes and returns \<open>None\<close> or the empty string, \<open>detectSpecVersion\<close> returns the string
  "master"; and \<open>detectSpecVersion\<close> returns null exactly when something inside its \<open>try\<close>
  block raised.
\<close>

theorem detectSpecVersion_master:
  assumes "pyodide s = Some h" and "pythonModulesLoaded s"
  shows "(\<forall>text parsed_data version. JSON_stringify env parsedData = Inr text \<and>
              import_module env ''validators.conformance_checker'' = None \<and>
              json_loads env text = Inr parsed_data \<and>
              detect_spec_version_from_parsed_data env parsed_data = Inr version \<and>
              (version = PyNone \<or> version = PyStr []) \<longrightarrow>
              fst (detectSpecVersion env parsedData s) = Inr (JSString ''master'')) \<and>
         (fst (detectSpecVersion env parsedData s) = Inr JSNull) =
           (\<exists>e. fst (detectSpecVersion_try env parsedData s) = Inl e)"
proof -
  have try_body: "fst (detectSpecVersion_try env parsedData s) =
      (case JSON_stringify env parsedData of
         Inl e \<Rightarrow> Inl e
       | Inr text \<Rightarrow>
           (case detect_script env ((py_globals s)(''parsed_data_json'' \<mapsto> text)) of
              Inl e \<Rightarrow> Inl e
            | Inr result \<Rightarrow> Inr (JSString result)))"
    by (simp add: detectSpecVersion_try_def Let_def split: sum.splits)
  have body: "fst (detectSpecVersion env parsedData s) =
      (case fst (detectSpecVersion_try env parsedData s) of
         Inl e \<Rightarrow> Inr JSNull
       | Inr result \<Rightarrow> Inr result)"
    using assms
    by (simp add: detectSpecVersion_def ensure_ready_loaded case_prod_beta split: sum.splits)
  have scr: "detect_script env ((py_globals s)(''parsed_data_json'' \<mapsto> jtext)) = Inr ''master''"
    if "import_module env ''validators.conformance_checker'' = None"
      and "json_loads env jtext = Inr parsed_data"
      and "detect_spec_version_from_parsed_data env parsed_data = Inr version"
      and "version = PyNone \<or> version = PyStr []"
    for jtext parsed_data version
    using that by (auto simp: detect_script_def)
  show ?thesis
    using scr by (auto simp: body try_body split: sum.splits)
qed

theorem detectSpecVersion_master_witness:
  "pyodide (module_load sample_env) = Some 1 \<and> pythonModulesLoaded (module_load sample_env) \<and>
   JSON_stringify env_no_version JSNull = Inr ''{}'' \<and>
   import_module env_no_version ''validators.conformance_checker'' = None \<and>
   json_loads env_no_version ''{}'' = Inr ''{}'' \<and>
   detect_spec_version_from_parsed_data env_no_version ''{}'' = Inr PyNone \<and>
   fst (detectSpecVersion env_no_version JSNull (module_load sample_env)) = Inr (JSString ''master'')"
proof -
  have h: "JSON_stringify env_no_version JSNull = Inr ''{}'' \<and>
           import_module env_no_version ''validators.conformance_checker'' = None \<and>
           json_loads env_no_version ''{}'' = Inr ''{}'' \<and>
           detect_spec_version_from_parsed_data env_no_version ''{}'' = Inr PyNone"
    by (simp add: env_defs)
  from detectSpecVersion_master [OF module_load_sample(1,2), of env_no_version JSNull] h
  have r: "fst (detectSpecVersion env_no_version JSNull (module_load sample_env))
             = Inr (JSString ''master'')"
    by blast
  from module_load_sample(1,2) h r show ?thesis by blast
qed

end
